theory Spec2Isabelle
  imports Main
begin

section \<open>LBBS IRC relay door (door\_irc.c) and thread management (thread.c)\<close>

text \<open>
  A shallow embedding of the IRC door of LBBS: the broadcast engine
  (\<^verbatim>\<open>__chat_send\<close>), the command dispatcher (\<^verbatim>\<open>handle_irc_msg\<close>), the relay
  reader (\<^verbatim>\<open>client_relay\<close>), the client registry (\<^verbatim>\<open>load_config\<close>,
  \<^verbatim>\<open>start_clients\<close>, \<^verbatim>\<open>join_client\<close>, \<^verbatim>\<open>leave_client\<close>, \<^verbatim>\<open>unload_module\<close>) and
  the thread join wrapper (\<^verbatim>\<open>__bbs_pthread_join\<close>).

  C strings are \<open>string\<close> (lists of bytes); a \<^verbatim>\<open>char *\<close> that may be \<^verbatim>\<open>NULL\<close> is a
  \<open>string option\<close>. A pointer that is compared for identity is the address of the
  struct, a \<open>nat\<close>. Every function body runs as one atomic step. Of the read/write list
  locks of \<^verbatim>\<open>linkedlists.h\<close> (not under src/), the lock of the client list is part of the
  registry state, because two paths return without releasing it; the lock of a client's
  participant list is released on every path and is left out.
  Dereferencing \<^verbatim>\<open>NULL\<close>, a failed \<^verbatim>\<open>assert\<close> and a read of memory the program never
  wrote are results of type \<open>fault\<close>; so is \<open>Blocked\<close>, a call that waits for ever for a
  lock that nobody releases. Log calls at debug level are left out; errors and warnings
  are kept as text.
\<close>

subsection \<open>Faults and the log\<close>

datatype fault = AssertAbort | NullDeref | Indeterminate | UseAfterFree | Blocked

datatype log_level = LOG_ERROR | LOG_WARNING | LOG_NOTICE | LOG_VERBOSE

type_synonym logline = "log_level \<times> string"

subsection \<open>The timestamp of a broadcast\<close>

text \<open>
  \<^verbatim>\<open>struct tm\<close>, with the members the format string of \<^verbatim>\<open>__chat_send\<close> reads.
  \<^verbatim>\<open>localtime_r\<close> fills them within the ranges of the C standard, \<open>valid_tm\<close>.
\<close>

record tm =
  tm_sec :: int
  tm_min :: int
  tm_hour :: int
  tm_mday :: int
  tm_mon :: int

definition valid_tm :: "tm \<Rightarrow> bool" where
  "valid_tm t \<longleftrightarrow>
     0 \<le> tm_sec t \<and> tm_sec t \<le> 60 \<and>
     0 \<le> tm_min t \<and> tm_min t \<le> 59 \<and>
     0 \<le> tm_hour t \<and> tm_hour t \<le> 23 \<and>
     1 \<le> tm_mday t \<and> tm_mday t \<le> 31 \<and>
     0 \<le> tm_mon t \<and> tm_mon t \<le> 11"

definition digit_char :: "nat \<Rightarrow> char" where
  "digit_char d = char_of (48 + d)"

fun dec :: "nat \<Rightarrow> string" where
  "dec n = (if n < 10 then [digit_char n] else dec (n div 10) @ [digit_char (n mod 10)])"

declare dec.simps [simp del]

text \<open>A decimal number in a field of two, padded with a zero, as \<^verbatim>\<open>%m %d %I %M %S\<close> print it.\<close>

definition pad2 :: "int \<Rightarrow> string" where
  "pad2 i = (if i < 0 then CHR ''-'' # dec (nat (- i))
             else if i < 10 then CHR ''0'' # dec (nat i)
             else dec (nat i))"

definition hour12 :: "int \<Rightarrow> int" where
  "hour12 h = (if h mod 12 = 0 then 12 else h mod 12)"

definition ampm :: "int \<Rightarrow> string" where
  "ampm h = (if h < 12 then ''am'' else ''pm'')"

text \<open>
  The expansion of \<^verbatim>\<open>"%m-%d %I:%M:%S%P "\<close> by \<^verbatim>\<open>strftime\<close> of the C library in the
  \<^verbatim>\<open>C\<close> locale (the library is not part of the repository).
\<close>

definition datestr_format :: "tm \<Rightarrow> string" where
  "datestr_format t =
     pad2 (tm_mon t + 1) @ ''-'' @ pad2 (tm_mday t) @ '' '' @
     pad2 (hour12 (tm_hour t)) @ '':'' @ pad2 (tm_min t) @ '':'' @ pad2 (tm_sec t) @
     ampm (tm_hour t) @ '' ''"

text \<open>
  \<^verbatim>\<open>strftime(datestr, sizeof(datestr), ...)\<close> into an array of \<open>maxsize\<close> bytes: the text and
  its terminating zero must fit, otherwise the call returns 0 and the array contents are
  indeterminate (\<open>None\<close>).
\<close>

definition strftime :: "nat \<Rightarrow> string \<Rightarrow> string option" where
  "strftime maxsize s = (if length s + 1 \<le> maxsize then Some s else None)"

definition datestr_of :: "tm \<Rightarrow> string option" where
  "datestr_of t = strftime 18 (datestr_format t)"

subsection \<open>Nodes, pipes, participants and clients\<close>

text \<open>
  \<^verbatim>\<open>struct bbs_node\<close> as the door reads it: the node number, the terminal class tested by
  the macro \<^verbatim>\<open>NODE_IS_TDD\<close> and the name returned by \<^verbatim>\<open>bbs_username(node->user)\<close>.
\<close>

record bbs_node =
  node_id :: int
  node_tdd :: bool
  node_user :: string

text \<open>
  \<^verbatim>\<open>int chatpipe[2]\<close>: the bytes written and not yet read, and whether the read end
  \<^verbatim>\<open>chatpipe[0]\<close> and the write end \<^verbatim>\<open>chatpipe[1]\<close> are open. \<^verbatim>\<open>write\<close> returns the number
  of bytes on success and \<^verbatim>\<open>-1\<close> when an end is closed.
\<close>

record pipe =
  pipe_data :: string
  rd_open :: bool
  wr_open :: bool

definition write_pipe :: "pipe \<Rightarrow> string \<Rightarrow> pipe \<times> int" where
  "write_pipe q bytes =
     (if wr_open q \<and> rd_open q then (q\<lparr>pipe_data := pipe_data q @ bytes\<rparr>, int (length bytes))
      else (q, - 1))"

record participant =
  p_addr :: nat
  node :: bbs_node
  p_client :: nat
  channel :: "string option"
  chatpipe :: pipe

text \<open>
  \<^verbatim>\<open>enum irc_ctcp\<close> and \<^verbatim>\<open>irc_ctcp_from_string\<close> of the lirc library.
  Modelled from the spec: the library is not under src/. The recognised verbs are
  ACTION, VERSION, PING and TIME; \<open>CTCP_OTHER\<close> stands for the further members of the
  enumeration that the dispatcher's \<^verbatim>\<open>switch\<close> sends to \<^verbatim>\<open>default\<close> (the source names
  DCC and SED); \<open>None\<close> is the negative result for an unknown verb.
\<close>

datatype irc_ctcp = CTCP_ACTION | CTCP_VERSION | CTCP_PING | CTCP_TIME | CTCP_OTHER

definition irc_ctcp_from_string :: "string option \<Rightarrow> irc_ctcp option" where
  "irc_ctcp_from_string s =
     (if s = Some ''ACTION'' then Some CTCP_ACTION
      else if s = Some ''VERSION'' then Some CTCP_VERSION
      else if s = Some ''PING'' then Some CTCP_PING
      else if s = Some ''TIME'' then Some CTCP_TIME
      else if s = Some ''DCC'' \<or> s = Some ''SED'' then Some CTCP_OTHER
      else None)"

text \<open>
  What the door hands to the lirc client for sending: \<^verbatim>\<open>irc_client_msg\<close>,
  \<^verbatim>\<open>irc_client_ctcp_reply\<close> and \<^verbatim>\<open>irc_send\<close>, in order.
\<close>

datatype out_event =
    IrcMsg "string option" string
  | CtcpReply "string" irc_ctcp "string option"
  | IrcSend string

datatype irc_flag = IRC_CLIENT_USE_TLS | IRC_CLIENT_VERIFY_SERVER | IRC_CLIENT_USE_SASL

record irc_client =
  ic_hostname :: "string option"
  ic_port :: nat
  ic_username :: "string option"
  ic_password :: "string option"
  ic_autojoin :: "string option"
  ic_flags :: "irc_flag list"
  ic_sent :: "out_event list"

record client =
  c_addr :: nat
  participants :: "participant list"
  irc :: irc_client
  c_thread :: bool
  c_log :: bool
  logfile :: "string list option"
  c_name :: string

definition irc_out :: "out_event \<Rightarrow> client \<Rightarrow> client" where
  "irc_out e c = c\<lparr>irc := (irc c)\<lparr>ic_sent := ic_sent (irc c) @ [e]\<rparr>\<rparr>"

subsection \<open>The environment of one call\<close>

text \<open>
  What a call reads from outside the program: the broken-down local time, the text
  \<^verbatim>\<open>strftime\<close> produces for the reply to CTCP TIME, whether \<^verbatim>\<open>vasprintf\<close> can allocate,
  and the macros \<^verbatim>\<open>BBS_SHORTNAME\<close> and \<^verbatim>\<open>COLOR_*\<close>, whose headers are not under src/.
  \<open>res_uninit\<close> is the content of the local \<^verbatim>\<open>int res\<close> of \<^verbatim>\<open>__chat_send\<close>, which is
  declared without an initialiser.
\<close>

record env =
  sendtime :: tm
  res_uninit :: int
  vasprintf_ok :: bool
  timebuf :: string
  BBS_SHORTNAME :: string
  COLOR_GREEN :: string
  COLOR_RED :: string
  COLOR_CYAN :: string
  COLOR_RESET :: string

subsection \<open>The broadcast engine: \<^verbatim>\<open>__chat_send\<close> and \<^verbatim>\<open>_chat_send\<close>\<close>

text \<open>The macro \<^verbatim>\<open>strlen_zero\<close> of \<^verbatim>\<open>utils.h\<close> (not under src/): a null pointer or an
  empty string.\<close>

definition strlen_zero :: "string option \<Rightarrow> bool" where
  "strlen_zero s \<longleftrightarrow> s = None \<or> s = Some []"

definition keep_participant ::
  "participant \<Rightarrow> fault + participant list \<times> logline list \<Rightarrow>
   fault + participant list \<times> logline list" where
  "keep_participant p r =
     (case r of Inl f \<Rightarrow> Inl f | Inr (ps, lg) \<Rightarrow> Inr (p # ps, lg))"

text \<open>
  The traversal of \<^verbatim>\<open>client->participants\<close>. \<open>res\<close> is the local variable of the same
  name: it is assigned by the two \<^verbatim>\<open>write\<close> calls only, so a participant on a TDD node
  meets the value the previous participant left (or the uninitialised one).
  \<^verbatim>\<open>strcmp(p->channel, channel)\<close> on a participant whose channel is still \<^verbatim>\<open>NULL\<close>
  is a null dereference.
\<close>

fun relay_participants ::
  "nat option \<Rightarrow> string option \<Rightarrow> string \<Rightarrow> string \<Rightarrow> int \<Rightarrow> participant list \<Rightarrow>
   fault + participant list \<times> logline list" where
  "relay_participants sender chan datestr msg res [] = Inr ([], [])"
| "relay_participants sender chan datestr msg res (p # ps) =
     (if sender = Some (p_addr p) then
        keep_participant p (relay_participants sender chan datestr msg res ps)
      else if \<not> strlen_zero chan \<and> channel p = None then Inl NullDeref
      else if \<not> strlen_zero chan \<and> channel p \<noteq> chan then
        keep_participant p (relay_participants sender chan datestr msg res ps)
      else
        let (q1, res1) = (if \<not> node_tdd (node p) then write_pipe (chatpipe p) datestr
                          else (chatpipe p, res));
            (q2, res2) = (if res1 > 0 then write_pipe q1 msg else (q1, res1));
            lg = (if res2 \<le> 0 then [(LOG_ERROR, ''write failed'')] else [])
        in case relay_participants sender chan datestr msg res2 ps of
             Inl f \<Rightarrow> Inl f
           | Inr (ps', lg') \<Rightarrow> Inr (p\<lparr>chatpipe := q2\<rparr> # ps', lg @ lg'))"

text \<open>
  \<^verbatim>\<open>bbs_assert\<close> is a macro of \<^verbatim>\<open>bbs.h\<close>, not under src/; it is taken to log the failed
  condition and go on.
\<close>

definition bbs_assert :: "bool \<Rightarrow> string \<Rightarrow> logline list" where
  "bbs_assert b what = (if b then [] else [(LOG_ERROR, ''Assertion failed: '' @ what)])"

definition chat_send_raw ::
  "env \<Rightarrow> client \<Rightarrow> nat option \<Rightarrow> string option \<Rightarrow> bool \<Rightarrow> string \<Rightarrow>
   fault + client \<times> logline list \<times> int" where
  "chat_send_raw e c sender chan dorelay msg =
     (case datestr_of (sendtime e) of
        None \<Rightarrow> Inl Indeterminate
      | Some datestr \<Rightarrow>
          let timelen = length datestr;
              lg0 = bbs_assert (timelen = 17) ''timelen == 17'';
              c1 = (if dorelay then irc_out (IrcMsg chan msg) c else c)
          in (case relay_participants sender chan datestr msg (res_uninit e) (participants c1) of
                Inl f \<Rightarrow> Inl f
              | Inr (ps, lg) \<Rightarrow> Inr (c1\<lparr>participants := ps\<rparr>, lg0 @ lg, 0)))"

text \<open>
  \<^verbatim>\<open>_chat_send\<close> formats and calls \<^verbatim>\<open>__chat_send\<close> (here \<open>chat_send_raw\<close>, since a name
  cannot start with an underscore). The text is formatted by the caller of the model;
  every format string of the door contains a conversion, so the \<^verbatim>\<open>vasprintf\<close> path is taken.
\<close>

definition chat_send_fmt ::
  "env \<Rightarrow> client \<Rightarrow> nat option \<Rightarrow> string option \<Rightarrow> bool \<Rightarrow> string \<Rightarrow>
   fault + client \<times> logline list \<times> int" where
  "chat_send_fmt e c sender chan dorelay text =
     (if \<not> vasprintf_ok e then Inr (c, [(LOG_ERROR, ''vasprintf failure'')], - 1)
      else chat_send_raw e c sender chan dorelay text)"

definition relay_to_local ::
  "env \<Rightarrow> client \<Rightarrow> string option \<Rightarrow> string \<Rightarrow> fault + client \<times> logline list" where
  "relay_to_local e c chan text =
     (case chat_send_fmt e c None chan False text of
        Inl f \<Rightarrow> Inl f
      | Inr (c', lg, r) \<Rightarrow> Inr (c', lg))"

subsection \<open>The command dispatcher: \<^verbatim>\<open>handle_irc_msg\<close>\<close>

abbreviation NUL :: char where "NUL \<equiv> CHR 0x00"
abbreviation SOH :: char where "SOH \<equiv> CHR 0x01"
abbreviation LF :: char where "LF \<equiv> CHR 0x0A"
abbreviation CR :: char where "CR \<equiv> CHR 0x0D"

text \<open>
  \<^verbatim>\<open>struct irc_msg\<close> of the lirc library, after \<^verbatim>\<open>memset\<close> and \<^verbatim>\<open>irc_parse_msg\<close>:
  a field the parser did not set is \<^verbatim>\<open>NULL\<close> (or 0 for \<open>numeric\<close>).
\<close>

record irc_msg =
  prefix :: "string option"
  numeric :: int
  command :: "string option"
  body :: "string option"

text \<open>
  \<^verbatim>\<open>strsep(&s, " ")\<close> with a one-character delimiter: the token returned and the new
  value of \<open>s\<close>, which is \<^verbatim>\<open>NULL\<close> when no delimiter was found.
\<close>

definition strsep :: "string option \<Rightarrow> char \<Rightarrow> string option \<times> string option" where
  "strsep s d =
     (case s of
        None \<Rightarrow> (None, None)
      | Some t \<Rightarrow>
          (Some (takeWhile (\<lambda>x. x \<noteq> d) t),
           (case dropWhile (\<lambda>x. x \<noteq> d) t of [] \<Rightarrow> None | x # r \<Rightarrow> Some r)))"

text \<open>\<^verbatim>\<open>tmp = strchr(s, ch); if (tmp) *tmp = '\\0';\<close> leaves the text before the first \<open>ch\<close>.\<close>

definition cut_at :: "char \<Rightarrow> string \<Rightarrow> string" where
  "cut_at ch s = takeWhile (\<lambda>x. x \<noteq> ch) s"

text \<open>The conversion \<^verbatim>\<open>%s\<close> of the C library, which prints a null pointer as \<^verbatim>\<open>(null)\<close>.\<close>

definition fmt_s :: "string option \<Rightarrow> string" where
  "fmt_s s = (case s of None \<Rightarrow> ''(null)'' | Some t \<Rightarrow> t)"

definition add_log :: "logline list \<Rightarrow> fault + client \<times> logline list \<Rightarrow> fault + client \<times> logline list" where
  "add_log lg r = (case r of Inl f \<Rightarrow> Inl f | Inr (c, lg') \<Rightarrow> Inr (c, lg @ lg'))"

text \<open>
  The branch for \<^verbatim>\<open>PRIVMSG\<close> and \<^verbatim>\<open>NOTICE\<close>. The body is \<^verbatim>\<open>CHANNEL :BODY\<close>;
  \<^verbatim>\<open>body++\<close> steps over the colon without looking at it. With no space in the body
  \<^verbatim>\<open>strsep\<close> leaves \<^verbatim>\<open>body\<close> \<^verbatim>\<open>NULL\<close> and \<^verbatim>\<open>*body\<close> dereferences it; with nothing after the
  space \<^verbatim>\<open>body++\<close> steps over the terminating zero. \<^verbatim>\<open>strchr(msg->prefix, '!')\<close> on a
  message without prefix dereferences \<^verbatim>\<open>NULL\<close>.
\<close>

definition handle_privmsg ::
  "env \<Rightarrow> client \<Rightarrow> irc_msg \<Rightarrow> string \<Rightarrow> fault + client \<times> logline list" where
  "handle_privmsg e c m cmd =
     (let (chan, body1) = strsep (body m) CHR '' '' in
      case body1 of
        None \<Rightarrow> Inl NullDeref
      | Some [] \<Rightarrow> Inl Indeterminate
      | Some (colon # b) \<Rightarrow>
          if b \<noteq> [] \<and> hd b = SOH then
            (let b1 = tl b in
             if b1 = [] then Inr (c, [(LOG_ERROR, ''Nothing after 001?'')])
             else
               let lg1 = (if SOH \<in> set b1 then []
                          else [(LOG_ERROR, ''Could not find trailing 001?'')]);
                   b2 = cut_at SOH b1;
                   (ctcp_name, b3) = strsep (Some b2) CHR '' ''
               in (case prefix m of
                     None \<Rightarrow> Inl NullDeref
                   | Some pfx \<Rightarrow>
                       let nick = cut_at CHR ''!'' pfx in
                       (case irc_ctcp_from_string ctcp_name of
                          None \<Rightarrow>
                            Inr (c, lg1 @ [(LOG_ERROR,
                              ''Unsupported CTCP extended data type: '' @ fmt_s ctcp_name)])
                        | Some ctcp \<Rightarrow>
                            if cmd = ''PRIVMSG'' then
                              (case ctcp of
                                 CTCP_ACTION \<Rightarrow>
                                   add_log lg1 (relay_to_local e c chan
                                     (''[ACTION] <'' @ nick @ ''> '' @ fmt_s b3 @ [LF]))
                               | CTCP_VERSION \<Rightarrow>
                                   Inr (irc_out (CtcpReply nick ctcp
                                     (Some (BBS_SHORTNAME e @ '' / LIRC 0.1.0''))) c, lg1)
                               | CTCP_PING \<Rightarrow> Inr (irc_out (CtcpReply nick ctcp b3) c, lg1)
                               | CTCP_TIME \<Rightarrow>
                                   Inr (irc_out (CtcpReply nick ctcp (Some (timebuf e))) c, lg1)
                               | CTCP_OTHER \<Rightarrow>
                                   Inr (c, lg1 @ [(LOG_WARNING,
                                     ''Unhandled CTCP extended data type: '' @ fmt_s ctcp_name)]))
                            else Inr (c, lg1))))
          else
            (case prefix m of
               None \<Rightarrow> Inl NullDeref
             | Some pfx \<Rightarrow>
                 relay_to_local e c chan (''<'' @ cut_at CHR ''!'' pfx @ ''> '' @ b @ [LF])))"

definition handle_irc_msg :: "env \<Rightarrow> client \<Rightarrow> irc_msg \<Rightarrow> fault + client \<times> logline list" where
  "handle_irc_msg e c m =
     (if numeric m \<noteq> 0 then Inr (c, [])
      else case command m of
        None \<Rightarrow> Inl AssertAbort
      | Some cmd \<Rightarrow>
          if cmd = ''PRIVMSG'' \<or> cmd = ''NOTICE'' then handle_privmsg e c m cmd
          else if cmd = ''PING'' then
            (case body m of
               None \<Rightarrow> Inr (irc_out (IrcSend ''PONG :'') c, [])
             | Some [] \<Rightarrow> Inl Indeterminate
             | Some (colon # b) \<Rightarrow> Inr (irc_out (IrcSend (''PONG :'' @ b)) c, []))
          else if cmd = ''JOIN'' then
            relay_to_local e c (body m)
              (fmt_s (prefix m) @ '' has '' @ COLOR_GREEN e @ ''joined'' @ COLOR_RESET e @ [LF])
          else if cmd = ''PART'' then
            relay_to_local e c (body m)
              (fmt_s (prefix m) @ '' has '' @ COLOR_RED e @ ''left'' @ COLOR_RESET e @ [LF])
          else if cmd = ''QUIT'' then
            relay_to_local e c (body m)
              (fmt_s (prefix m) @ '' has '' @ COLOR_RED e @ ''quit'' @ COLOR_RESET e @ [LF])
          else if cmd = ''KICKED'' then
            relay_to_local e c (body m)
              (fmt_s (prefix m) @ '' has been '' @ COLOR_RED e @ ''kicked'' @ COLOR_RESET e @ [LF])
          else if cmd = ''NICK'' then
            relay_to_local e c None
              (fmt_s (prefix m) @ '' is '' @ COLOR_CYAN e @ ''now known as'' @ COLOR_RESET e @
               '' '' @ fmt_s (body m) @ [LF])
          else if cmd = ''MODE'' then Inr (c, [])
          else if cmd = ''ERROR'' then Inr (c, [])
          else if cmd = ''TOPIC'' then Inr (c, [])
          else Inr (c, [(LOG_WARNING,
                 ''Unhandled command: prefix: '' @ fmt_s (prefix m) @ '', command: '' @ cmd @
                 '', body: '' @ fmt_s (body m))]))"

subsection \<open>The relay reader: \<^verbatim>\<open>client_relay\<close>\<close>

text \<open>
  The reader's locals. \<open>readbuf\<close> is the array \<^verbatim>\<open>char readbuf[IRC_MAX_MSG_LEN + 1]\<close>;
  \<open>mybuf\<close> and \<open>start\<close> are the offsets of the pointers of the same name into it;
  \<open>mylen\<close> is the \<^verbatim>\<open>int\<close> of the same name; \<open>rlog\<close> collects what the reader logs.
  The constant \<^verbatim>\<open>IRC_MAX_MSG_LEN\<close> belongs to the lirc header, which is not under src/:
  it is the parameter \<open>N\<close> of every function below, and \<^verbatim>\<open>sizeof(readbuf) - 1\<close> is \<open>N\<close>.
\<close>

record relay_state =
  readbuf :: "char list"
  mybuf :: nat
  mylen :: int
  start :: nat
  rlog :: "logline list"

text \<open>The C string that starts at an offset of the array, and one byte of the array.\<close>

definition cstr :: "char list \<Rightarrow> nat \<Rightarrow> string" where
  "cstr buf off = takeWhile (\<lambda>x. x \<noteq> NUL) (drop off buf)"

definition byte_at :: "char list \<Rightarrow> nat \<Rightarrow> char" where
  "byte_at buf i = (if i < length buf then buf ! i else NUL)"

text \<open>Copying bytes into the array at an offset.\<close>

definition store :: "char list \<Rightarrow> nat \<Rightarrow> char list \<Rightarrow> char list" where
  "store buf off bytes = take off buf @ bytes @ drop (off + length bytes) buf"

text \<open>\<^verbatim>\<open>strstr(s, "\\r\\n")\<close>: the index of the first CR LF in a C string, if any.\<close>

fun find_crlf :: "char list \<Rightarrow> nat option" where
  "find_crlf [] = None"
| "find_crlf [x] = None"
| "find_crlf (x # y # r) =
     (if x = NUL then None
      else if x = CR \<and> y = LF then Some 0
      else map_option Suc (find_crlf (y # r)))"

definition strstr_crlf :: "char list \<Rightarrow> nat \<Rightarrow> nat option" where
  "strstr_crlf buf off = map_option (\<lambda>i. off + i) (find_crlf (drop off buf))"

text \<open>
  The network: the chunks that successive reads find available. \<^verbatim>\<open>irc_poll\<close> and
  \<^verbatim>\<open>irc_read(client, mybuf, mylen)\<close> together: with no chunk left, or an empty one, the
  result is not positive and the loop ends; otherwise the read takes at most \<open>n\<close> bytes
  of the first chunk and leaves the rest of it for the next read.
\<close>

fun net_read :: "nat \<Rightarrow> string list \<Rightarrow> (string \<times> string list) option" where
  "net_read n [] = None"
| "net_read n (x # xs) =
     (if x = [] \<or> n = 0 then None
      else if length x \<le> n then Some (x, xs)
      else Some (take n x, drop n x # xs))"

text \<open>
  Lines 403 to 421: when at most one byte is free, the pending fragment (the C string at
  \<open>start\<close>) is moved to the front of the array; if that frees nothing, the reader logs
  an error and starts again with an empty array.
\<close>

definition compact :: "nat \<Rightarrow> relay_state \<Rightarrow> relay_state" where
  "compact N s =
     (if mylen s \<le> 1 then
        let frag = cstr (readbuf s) (start s);
            buf = store (readbuf s) 0 (frag @ [NUL]);
            a = length frag;
            len = int N - int a
        in if len \<le> 1 then
             s\<lparr>readbuf := buf, start := 0, mybuf := 0, mylen := int N,
               rlog := rlog s @ [(LOG_ERROR, ''Buffer truncation!'')]\<rparr>
           else s\<lparr>readbuf := buf, mybuf := a, mylen := len, start := 0\<rparr>
      else s)"

text \<open>
  The \<^verbatim>\<open>do ... while\<close> loop over the bytes just read. \<open>h\<close> is what is done with a line
  (\<^verbatim>\<open>fprintf\<close> to the log file, \<^verbatim>\<open>irc_parse_msg\<close>, \<^verbatim>\<open>handle_irc_msg\<close>); it receives the
  C string at \<open>start\<close>. \<^verbatim>\<open>strstr\<close> searches from \<open>mybuf\<close>, the place the last read
  wrote to. Without a terminator the loop leaves through \<^verbatim>\<open>goto begin\<close> with the
  fragment kept; when the bytes are used up the array is reset.
\<close>

lemma find_crlf_bound: "find_crlf xs = Some i \<Longrightarrow> i + 2 \<le> length xs"
  by (induction xs arbitrary: i rule: find_crlf.induct) (auto split: if_splits)

function scan_lines ::
  "nat \<Rightarrow> ('c \<Rightarrow> string \<Rightarrow> fault + 'c) \<Rightarrow> nat \<Rightarrow> int \<Rightarrow> int \<Rightarrow> relay_state \<Rightarrow> 'c \<Rightarrow>
   fault + relay_state \<times> 'c" where
  "scan_lines N h prevbuf prevlen res s c =
     (case strstr_crlf (readbuf s) (mybuf s) of
        None \<Rightarrow> Inr (s\<lparr>mybuf := prevbuf + nat res, mylen := prevlen - res\<rparr>, c)
      | Some eom \<Rightarrow>
          let buf = (if byte_at (readbuf s) (eom + 2) \<noteq> NUL then (readbuf s)[eom + 1 := NUL]
                     else readbuf s)
          in (case h c (cstr buf (start s)) of
                Inl f \<Rightarrow> Inl f
              | Inr c' \<Rightarrow>
                  let s' = s\<lparr>readbuf := buf, mylen := mylen s - (int (eom + 2) - int (mybuf s)),
                             start := eom + 2, mybuf := eom + 2\<rparr>
                  in if byte_at buf (eom + 2) \<noteq> NUL then scan_lines N h prevbuf prevlen res s' c'
                     else Inr (s'\<lparr>start := 0, mybuf := 0, mylen := int N\<rparr>, c')))"
  by pat_completeness auto
termination
proof (relation "measure (\<lambda>(N, h, prevbuf, prevlen, res, s, c). length (readbuf s) - mybuf s)")
  show "wf (measure (\<lambda>(N, h, prevbuf, prevlen, res, s, c). length (readbuf s) - mybuf s))"
    by simp
next
  fix N :: nat and h :: "'c \<Rightarrow> string \<Rightarrow> fault + 'c" and prevbuf :: nat and prevlen res :: int
    and s :: relay_state and c c' :: 'c and eom :: nat and buf s'
  assume f: "strstr_crlf (readbuf s) (mybuf s) = Some eom"
    and b: "buf = (if byte_at (readbuf s) (eom + 2) \<noteq> NUL then (readbuf s)[eom + 1 := NUL]
                   else readbuf s)"
    and s': "s' = s\<lparr>readbuf := buf, mylen := mylen s - (int (eom + 2) - int (mybuf s)),
                    start := eom + 2, mybuf := eom + 2\<rparr>"
    and nz: "byte_at buf (eom + 2) \<noteq> NUL"
  have len: "length buf = length (readbuf s)" using b by simp
  have "eom + 2 < length buf" using nz by (auto simp: byte_at_def split: if_splits)
  moreover have "mybuf s \<le> eom" using f by (auto simp: strstr_crlf_def)
  ultimately show "((N, h, prevbuf, prevlen, res, s', c'), (N, h, prevbuf, prevlen, res, s, c))
      \<in> measure (\<lambda>(N, h, prevbuf, prevlen, res, s, c). length (readbuf s) - mybuf s)"
    using len s' by simp
qed

declare scan_lines.simps [simp del]

text \<open>
  The outer loop, from \<^verbatim>\<open>begin:\<close>. It ends when poll or read return nothing; a fault in
  the handler ends the process.
\<close>

definition chunks_size :: "string list \<Rightarrow> nat" where
  "chunks_size xs = sum_list (map (\<lambda>x. Suc (length x)) xs)"

lemma net_read_smaller: "net_read n xs = Some (bytes, rest) \<Longrightarrow> chunks_size rest < chunks_size xs"
  by (cases xs) (auto simp: chunks_size_def split: if_splits)

function relay_loop ::
  "nat \<Rightarrow> ('c \<Rightarrow> string \<Rightarrow> fault + 'c) \<Rightarrow> relay_state \<Rightarrow> 'c \<Rightarrow> string list \<Rightarrow>
   fault + relay_state \<times> 'c" where
  "relay_loop N h s c input =
     (let s1 = compact N s in
      case net_read (nat (mylen s1)) input of
        None \<Rightarrow> Inr (s1, c)
      | Some (bytes, rest) \<Rightarrow>
          (case scan_lines N h (mybuf s1) (mylen s1) (int (length bytes))
                  (s1\<lparr>readbuf := store (readbuf s1) (mybuf s1) (bytes @ [NUL])\<rparr>) c of
             Inl f \<Rightarrow> Inl f
           | Inr (s2, c') \<Rightarrow> relay_loop N h s2 c' rest))"
  by pat_completeness auto
termination
  by (relation "measure (\<lambda>(N, h, s, c, input). chunks_size input)")
     (auto dest: net_read_smaller)

declare relay_loop.simps [simp del]

text \<open>The locals at the first \<^verbatim>\<open>begin:\<close>; the array is not initialised, \<open>buf0\<close> is its content.\<close>

definition relay_init :: "nat \<Rightarrow> char list \<Rightarrow> relay_state" where
  "relay_init N buf0 = \<lparr>readbuf = buf0, mybuf = 0, mylen = int N, start = 0, rlog = []\<rparr>"

text \<open>
  What the reader does with a line: append it to the log file if one is open, parse it
  with \<^verbatim>\<open>irc_parse_msg\<close> of lirc (the parameter \<open>parse\<close>, \<open>None\<close> for a line it
  rejects) and dispatch the message.
\<close>

definition relay_dispatch ::
  "(string \<Rightarrow> irc_msg option) \<Rightarrow> env \<Rightarrow> client \<times> logline list \<Rightarrow> string \<Rightarrow>
   fault + client \<times> logline list" where
  "relay_dispatch parse e cl line =
     (let c1 = (case logfile (fst cl) of
                  None \<Rightarrow> fst cl
                | Some f \<Rightarrow> (fst cl)\<lparr>logfile := Some (f @ [line @ [LF]])\<rparr>)
      in case parse line of
           None \<Rightarrow> Inr (c1, snd cl)
         | Some m \<Rightarrow>
             (case handle_irc_msg e c1 m of
                Inl f \<Rightarrow> Inl f
              | Inr (c2, lg) \<Rightarrow> Inr (c2, snd cl @ lg)))"

text \<open>
  \<^verbatim>\<open>client_relay\<close>: open the log file if the client logs (\<open>fopen_ok\<close> tells whether
  \<^verbatim>\<open>fopen\<close> succeeds), then run the loop.
\<close>

definition client_relay ::
  "nat \<Rightarrow> (string \<Rightarrow> irc_msg option) \<Rightarrow> env \<Rightarrow> bool \<Rightarrow> char list \<Rightarrow> client \<Rightarrow> string list \<Rightarrow>
   fault + relay_state \<times> client \<times> logline list" where
  "client_relay N parse e fopen_ok buf0 c input =
     (if c_log c \<and> \<not> fopen_ok then
        Inr (relay_init N buf0, c, [(LOG_ERROR, ''Failed to open log file'')])
      else
        relay_loop N (relay_dispatch parse e) (relay_init N buf0)
          (if c_log c then c\<lparr>logfile := Some []\<rparr> else c, []) input)"

text \<open>A handler that only records the lines it is given, for statements about framing.\<close>

definition record_line :: "string list \<Rightarrow> string \<Rightarrow> fault + string list" where
  "record_line acc line = Inr (acc @ [line])"

definition dispatched :: "fault + relay_state \<times> string list \<Rightarrow> fault + string list" where
  "dispatched r = (case r of Inl f \<Rightarrow> Inl f | Inr (s, acc) \<Rightarrow> Inr acc)"

subsection \<open>The client registry\<close>

text \<open>
  The module's static state: the flag \<^verbatim>\<open>unloading\<close> and the list \<^verbatim>\<open>clients\<close>.
  \<open>clients_locked\<close> tells that a call has returned while holding the lock of the list
  (\<^verbatim>\<open>RWLIST_WRLOCK(&clients)\<close> without \<^verbatim>\<open>RWLIST_UNLOCK\<close>): from then on every call that
  takes the lock waits for ever. Two more components keep track of participants outside
  any list: \<open>detached\<close> holds those that \<^verbatim>\<open>unload_module\<close> took off their client's list
  (each is still allocated and owned by its node), \<open>freed\<close> the addresses passed to
  \<^verbatim>\<open>free\<close>.
\<close>

record registry =
  unloading :: bool
  clients :: "client list"
  clients_locked :: bool
  detached :: "participant list"
  freed :: "nat list"

definition registry_init :: registry where
  "registry_init =
     \<lparr>unloading = False, clients = [], clients_locked = False, detached = [], freed = []\<rparr>"

text \<open>
  A section of \<^verbatim>\<open>door_irc.conf\<close> as \<^verbatim>\<open>bbs_config_walk\<close> yields it, with the values
  \<^verbatim>\<open>bbs_config_sect_val\<close> returns. The configuration loader is not under src/: what
  \<^verbatim>\<open>bbs_config_val_set_uint\<close> and \<^verbatim>\<open>bbs_config_val_set_true\<close> find for a section name and a
  key is given by \<open>val_uint\<close> and \<open>val_true\<close> (\<open>None\<close>: the variable is left as it was).
\<close>

record bbs_config_section =
  sect_name :: string
  sect_hostname :: "string option"
  sect_username :: "string option"
  sect_password :: "string option"
  sect_autojoin :: "string option"

record bbs_config =
  sections :: "bbs_config_section list"
  val_uint :: "string \<Rightarrow> string \<Rightarrow> nat option"
  val_true :: "string \<Rightarrow> string \<Rightarrow> bool option"

text \<open>
  What \<^verbatim>\<open>load_config\<close> meets outside the program, for the \<open>i\<close>-th section walked: the
  address \<^verbatim>\<open>calloc\<close> returns (\<open>None\<close> for \<^verbatim>\<open>NULL\<close>) and whether \<^verbatim>\<open>irc_client_new\<close>
  succeeds; and the content of the local \<^verbatim>\<open>int logfile\<close>, which has no initialiser, when
  the loop is entered.
\<close>

record load_env =
  calloc_client :: "nat \<Rightarrow> nat option"
  irc_client_new_ok :: "nat \<Rightarrow> bool"
  logfile_uninit :: bool

definition section_flags :: "bbs_config \<Rightarrow> string \<Rightarrow> irc_flag list" where
  "section_flags cfg nm =
     (if val_true cfg nm ''tls'' = Some True then [IRC_CLIENT_USE_TLS] else []) @
     (if val_true cfg nm ''tlsverify'' = Some True then [IRC_CLIENT_VERIFY_SERVER] else []) @
     (if val_true cfg nm ''sasl'' = Some True then [IRC_CLIENT_USE_SASL] else [])"

text \<open>The client built from a section; \<open>lf\<close> is the value of the local \<^verbatim>\<open>logfile\<close>.\<close>

definition new_client :: "bbs_config \<Rightarrow> bbs_config_section \<Rightarrow> nat \<Rightarrow> bool \<Rightarrow> client" where
  "new_client cfg sec a lf =
     \<lparr>c_addr = a, participants = [],
      irc = \<lparr>ic_hostname = sect_hostname sec,
             ic_port = (case val_uint cfg (sect_name sec) ''port'' of None \<Rightarrow> 0 | Some n \<Rightarrow> n),
             ic_username = sect_username sec, ic_password = sect_password sec,
             ic_autojoin = sect_autojoin sec,
             ic_flags = section_flags cfg (sect_name sec), ic_sent = []\<rparr>,
      c_thread = False, c_log = lf, logfile = None, c_name = sect_name sec\<rparr>"

text \<open>
  The \<^verbatim>\<open>while\<close> loop of \<^verbatim>\<open>load_config\<close>; \<open>i\<close> counts the sections walked. \<open>lf\<close> is the
  local \<^verbatim>\<open>logfile\<close>: it is written only by \<^verbatim>\<open>bbs_config_val_set_true\<close> when the section
  has the key, so a section without the key meets the value the previous section left.
\<close>

fun walk_sections ::
  "load_env \<Rightarrow> bbs_config \<Rightarrow> nat \<Rightarrow> bool \<Rightarrow> bbs_config_section list \<Rightarrow>
   client list \<times> logline list" where
  "walk_sections le cfg i lf [] = ([], [])"
| "walk_sections le cfg i lf (sec # rest) =
     (if sect_name sec = ''general'' then walk_sections le cfg (Suc i) lf rest
      else
        let lf' = (case val_true cfg (sect_name sec) ''logfile'' of None \<Rightarrow> lf | Some b \<Rightarrow> b);
            (cs, lg) = walk_sections le cfg (Suc i) lf' rest
        in case calloc_client le i of
             None \<Rightarrow> (cs, (LOG_ERROR, ''calloc failed'') # lg)
           | Some a \<Rightarrow>
               if \<not> irc_client_new_ok le i then (cs, lg)
               else (new_client cfg sec a lf' # cs, lg))"

text \<open>A missing file is reported before the lock is taken.\<close>

definition load_config ::
  "load_env \<Rightarrow> bbs_config option \<Rightarrow> registry \<Rightarrow> fault + registry \<times> logline list \<times> int" where
  "load_config le cfg r =
     (case cfg of
        None \<Rightarrow>
          Inr (r, [(LOG_ERROR, ''File door_irc.conf is missing: IRC client declining to start'')],
               - 1)
      | Some cf \<Rightarrow>
          if clients_locked r then Inl Blocked
          else
            let (cs, lg) = walk_sections le cf 0 (logfile_uninit le) (sections cf)
            in Inr (r\<lparr>clients := clients r @ cs\<rparr>, lg, 0))"

text \<open>
  \<^verbatim>\<open>start_clients\<close>. For the client at an address, \<open>con\<close> tells how connecting goes:
  connect and login succeed and the client is connected, connect or login fails, or
  both succeed and the client is found disconnected; \<open>thr\<close> tells how
  \<^verbatim>\<open>bbs_pthread_create\<close> goes (\<^verbatim>\<open>create_thread\<close> of thread.c logs only when
  \<^verbatim>\<open>pthread_create\<close> itself fails). A failed thread creation returns \<^verbatim>\<open>-1\<close> at once,
  after \<^verbatim>\<open>started++\<close>: the rest of the list is left as it is and the lock stays held.
  The walk returns the list, the log, the count \<^verbatim>\<open>started\<close> and whether it was cut short.
\<close>

datatype connect_outcome = Connected | ConnectFailed | DisconnectedEarly

datatype thread_outcome = ThreadCreated | ThreadAllocFailed | ThreadSpawnFailed

fun start_walk ::
  "(nat \<Rightarrow> connect_outcome) \<Rightarrow> (nat \<Rightarrow> thread_outcome) \<Rightarrow> client list \<Rightarrow>
   client list \<times> logline list \<times> nat \<times> bool" where
  "start_walk con thr [] = ([], [], 0, False)"
| "start_walk con thr (c # cs) =
     (case con (c_addr c) of
        Connected \<Rightarrow>
          (case thr (c_addr c) of
             ThreadCreated \<Rightarrow>
               (let (cs', lg, n, cut) = start_walk con thr cs
                in (c\<lparr>c_thread := True\<rparr> # cs', lg, Suc n, cut))
           | ThreadAllocFailed \<Rightarrow> (c # cs, [], 1, True)
           | ThreadSpawnFailed \<Rightarrow>
               (c # cs, [(LOG_ERROR, ''Failed to spawn thread to execute client_relay()'')],
                1, True))
      | ConnectFailed \<Rightarrow>
          (let (cs', lg, n, cut) = start_walk con thr cs
           in (cs', (LOG_ERROR, ''Failed to start IRC client '' @ c_name c) # lg, n, cut))
      | DisconnectedEarly \<Rightarrow>
          (let (cs', lg, n, cut) = start_walk con thr cs
           in (cs',
               (LOG_ERROR, ''Attempted to start client '' @ c_name c @
                  '', but disconnected prematurely?'') #
               (LOG_ERROR, ''Failed to start IRC client '' @ c_name c) # lg, n, cut)))"

definition start_clients ::
  "(nat \<Rightarrow> connect_outcome) \<Rightarrow> (nat \<Rightarrow> thread_outcome) \<Rightarrow> registry \<Rightarrow>
   fault + registry \<times> logline list \<times> int" where
  "start_clients con thr r =
     (if clients_locked r then Inl Blocked
      else
        let (cs, lg, n, cut) = start_walk con thr (clients r)
        in if cut then Inr (r\<lparr>clients := cs, clients_locked := True\<rparr>, lg, - 1)
           else Inr (r\<lparr>clients := cs\<rparr>,
                     lg @ (if 0 < n then [(LOG_VERBOSE, ''Started IRC clients'')] else []), 0))"

text \<open>\<^verbatim>\<open>strcasecmp(a, b) == 0\<close> for ASCII letters.\<close>

definition tolower :: "char \<Rightarrow> char" where
  "tolower x = (let n = (of_char x :: nat) in if 65 \<le> n \<and> n \<le> 90 then char_of (n + 32) else x)"

definition strcasecmp_eq :: "string \<Rightarrow> string \<Rightarrow> bool" where
  "strcasecmp_eq a b \<longleftrightarrow> map tolower a = map tolower b"

text \<open>
  \<^verbatim>\<open>join_client\<close>: the first client whose name matches receives the new participant at
  the head of its list. \<open>addr\<close> is what \<^verbatim>\<open>calloc\<close> returns, \<open>pipe_ok\<close> whether \<^verbatim>\<open>pipe\<close>
  succeeds. The result is the participant's address, \<open>None\<close> for \<^verbatim>\<open>NULL\<close>. The channel of
  the new participant is \<^verbatim>\<open>NULL\<close>: \<^verbatim>\<open>irc_client_exec\<close> assigns it after the call.
  When no client matches, the function returns \<^verbatim>\<open>NULL\<close> without \<^verbatim>\<open>RWLIST_UNLOCK\<close>: the
  lock stays held. The two other failure paths release it.
\<close>

fun insert_participant :: "string \<Rightarrow> participant \<Rightarrow> client list \<Rightarrow> client list" where
  "insert_participant nm p [] = []"
| "insert_participant nm p (c # cs) =
     (if strcasecmp_eq (c_name c) nm then c\<lparr>participants := p # participants c\<rparr> # cs
      else c # insert_participant nm p cs)"

definition join_client ::
  "nat option \<Rightarrow> bool \<Rightarrow> registry \<Rightarrow> bbs_node \<Rightarrow> string \<Rightarrow>
   fault + registry \<times> nat option \<times> logline list" where
  "join_client addr pipe_ok r nd nm =
     (if clients_locked r then Inl Blocked
      else case find (\<lambda>c. strcasecmp_eq (c_name c) nm) (clients r) of
        None \<Rightarrow>
          Inr (r\<lparr>clients_locked := True\<rparr>, None,
               [(LOG_ERROR, ''IRC client '' @ nm @ '' does not exist'')])
      | Some c \<Rightarrow>
          (case addr of
             None \<Rightarrow> Inr (r, None, [(LOG_ERROR, ''calloc failure'')])
           | Some a \<Rightarrow>
               if \<not> pipe_ok then
                 Inr (r\<lparr>freed := a # freed r\<rparr>, None, [(LOG_ERROR, ''Failed to create pipe'')])
               else
                 Inr (r\<lparr>clients := insert_participant nm
                        \<lparr>p_addr = a, node = nd, p_client = c_addr c, channel = None,
                         chatpipe = \<lparr>pipe_data = [], rd_open = True, wr_open = True\<rparr>\<rparr>
                        (clients r)\<rparr>,
                      Some a, [])))"

text \<open>\<^verbatim>\<open>p->channel = channel\<close> in \<^verbatim>\<open>irc_client_exec\<close>, on the participant just joined.\<close>

definition set_channel :: "nat \<Rightarrow> string \<Rightarrow> registry \<Rightarrow> registry" where
  "set_channel a ch r =
     r\<lparr>clients := map (\<lambda>c. c\<lparr>participants :=
          map (\<lambda>p. if p_addr p = a then p\<lparr>channel := Some ch\<rparr> else p) (participants c)\<rparr>)
          (clients r)\<rparr>"

text \<open>
  \<^verbatim>\<open>leave_client(client, participant)\<close>, both given by address. The lock of the list is
  taken first. While unloading, only the participant is freed. Otherwise the participant
  is taken off the client's list, its pipe closed and its memory freed; a client that is
  no longer in the registry has been freed, and reading its list is a use after free.
\<close>

fun remove_participant :: "nat \<Rightarrow> participant list \<Rightarrow> participant list" where
  "remove_participant a [] = []"
| "remove_participant a (p # ps) = (if p_addr p = a then ps else p # remove_participant a ps)"

definition leave_client :: "registry \<Rightarrow> nat \<Rightarrow> nat \<Rightarrow> fault + registry \<times> logline list" where
  "leave_client r ca pa =
     (if clients_locked r then Inl Blocked
      else if unloading r then Inr (r\<lparr>freed := pa # freed r\<rparr>, [])
      else case find (\<lambda>c. c_addr c = ca) (clients r) of
        None \<Rightarrow> Inl UseAfterFree
      | Some c \<Rightarrow>
          if pa \<in> p_addr ` set (participants c) then
            Inr (r\<lparr>clients := map (\<lambda>c. if c_addr c = ca
                                       then c\<lparr>participants := remove_participant pa (participants c)\<rparr>
                                       else c) (clients r),
                   freed := pa # freed r\<rparr>, [])
          else Inr (r, [(LOG_ERROR, ''Failed to remove participant from client '' @ c_name c)]))"

text \<open>
  \<^verbatim>\<open>unload_module\<close>: with the lock of the list, the flag is set, and every client is
  taken off the list and released; its participants are taken off its list with the
  write end of their pipe closed, and stay allocated.
\<close>

definition kick_participant :: "participant \<Rightarrow> participant" where
  "kick_participant p = p\<lparr>chatpipe := (chatpipe p)\<lparr>wr_open := False\<rparr>\<rparr>"

definition unload_module :: "registry \<Rightarrow> fault + registry" where
  "unload_module r =
     (if clients_locked r then Inl Blocked
      else Inr (r\<lparr>unloading := True, clients := [],
                  detached := detached r @
                    map kick_participant (concat (map participants (clients r)))\<rparr>))"

text \<open>
  A broadcast or a dispatched message on the client at an address: the client is
  replaced by the result. Neither takes the lock of the client list.
\<close>

definition on_client ::
  "(client \<Rightarrow> fault + client \<times> logline list) \<Rightarrow> nat \<Rightarrow> registry \<Rightarrow> fault + registry \<times> logline list" where
  "on_client f ca r =
     (case find (\<lambda>c. c_addr c = ca) (clients r) of
        None \<Rightarrow> Inl UseAfterFree
      | Some c \<Rightarrow>
          (case f c of
             Inl e \<Rightarrow> Inl e
           | Inr (c', lg) \<Rightarrow>
               Inr (r\<lparr>clients := map (\<lambda>x. if c_addr x = ca then c' else x) (clients r)\<rparr>, lg)))"

text \<open>
  The states of the module. \<^verbatim>\<open>load_module\<close> runs \<^verbatim>\<open>load_config\<close> once, on the initial
  state; afterwards clients are started, nodes join, get their channel, chat and leave,
  messages are dispatched, and the module is unloaded.
\<close>

inductive reachable :: "registry \<Rightarrow> bool" where
  init: "reachable registry_init"
| load: "load_config le cfg registry_init = Inr (r, lg, res) \<Longrightarrow> reachable r"
| start: "reachable r \<Longrightarrow> start_clients con thr r = Inr (r', lg, res) \<Longrightarrow> reachable r'"
| join: "reachable r \<Longrightarrow> join_client addr pipe_ok r nd nm = Inr (r', p, lg) \<Longrightarrow> reachable r'"
| chan: "reachable r \<Longrightarrow> reachable (set_channel a ch r)"
| send: "reachable r \<Longrightarrow>
         on_client (\<lambda>c. case chat_send_fmt e c sender ch True text of
                          Inl f \<Rightarrow> Inl f | Inr (c', lg, n) \<Rightarrow> Inr (c', lg)) ca r = Inr (r', lg) \<Longrightarrow>
         reachable r'"
| dispatch: "reachable r \<Longrightarrow> on_client (\<lambda>c. handle_irc_msg e c m) ca r = Inr (r', lg) \<Longrightarrow>
         reachable r'"
| leave: "reachable r \<Longrightarrow> leave_client r ca pa = Inr (r', lg) \<Longrightarrow> reachable r'"
| unload: "reachable r \<Longrightarrow> unload_module r = Inr r' \<Longrightarrow> reachable r'"

subsection \<open>Joining a thread: \<^verbatim>\<open>__bbs_pthread_join\<close> (thread.c)\<close>

text \<open>
  \<^verbatim>\<open>struct thread_list_t\<close>. The fields \<^verbatim>\<open>id\<close>, \<^verbatim>\<open>start\<close> and \<^verbatim>\<open>end\<close> carry a prefix, since
  these names are taken in Isabelle.
\<close>

record thread_list_t =
  t_name :: string
  t_id :: nat
  t_lwp :: int
  t_start :: int
  t_end :: int
  t_detached :: bool
  t_waitingjoin :: bool

definition ETIMEDOUT :: int where
  "ETIMEDOUT = 110"

text \<open>
  \<^verbatim>\<open>__thread_unregister\<close> (here \<open>thread_unregister\<close>, as \<^verbatim>\<open>__bbs_pthread_join\<close> is
  \<open>bbs_pthread_join\<close>): the first entry with the given id is removed when it is
  detached or already waiting to be joined, and marked as waiting otherwise. The result
  is the list, the LWP of the entry (\<open>-1\<close> without one) and the log. \<open>secs\<close> is
  \<^verbatim>\<open>time(NULL)\<close>.
\<close>

fun unregister_walk :: "nat \<Rightarrow> int \<Rightarrow> thread_list_t list \<Rightarrow> thread_list_t list" where
  "unregister_walk i secs [] = []"
| "unregister_walk i secs (x # xs) =
     (if t_id x = i then
        (if t_detached x \<or> t_waitingjoin x then xs
         else x\<lparr>t_waitingjoin := True, t_end := secs\<rparr> # xs)
      else x # unregister_walk i secs xs)"

definition thread_unregister ::
  "nat \<Rightarrow> int \<Rightarrow> thread_list_t list \<Rightarrow> thread_list_t list \<times> int \<times> logline list" where
  "thread_unregister i secs ths =
     (case find (\<lambda>x. t_id x = i) ths of
        None \<Rightarrow> (ths, - 1, [(LOG_ERROR, ''Thread not found?'')])
      | Some x \<Rightarrow> (unregister_walk i secs ths, t_lwp x, []))"

text \<open>
  The environment of a join. Times are nanoseconds of \<^verbatim>\<open>CLOCK_REALTIME\<close>, counted from
  the Epoch. \<open>clock\<close> is the time at which \<^verbatim>\<open>__bbs_pthread_join\<close> is called, \<open>exits_at\<close>
  the time at which the target thread terminates (\<open>None\<close>: never), \<open>call_ns\<close> the time
  that passes between the return of one library call and the next statement, and
  \<open>join_errno\<close> an error other than a timeout that the join calls report (0: none).
\<close>

record join_env =
  clock :: int
  exits_at :: "int option"
  call_ns :: int
  join_errno :: int

text \<open>
  \<^verbatim>\<open>pthread_timedjoin_np(thread, retval, abstime)\<close> and \<^verbatim>\<open>pthread_join\<close> of the C
  library, which is not part of the repository; modelled from their manual page:
  \<^verbatim>\<open>abstime\<close> is an absolute time measured since the Epoch, and the call returns
  \<^verbatim>\<open>ETIMEDOUT\<close> when that time is reached before the thread has terminated. The result is
  the return value and the time at which the call returns, for a call made at time \<open>t\<close>.
\<close>

definition pthread_timedjoin_np :: "join_env \<Rightarrow> int \<Rightarrow> int \<Rightarrow> int \<times> int" where
  "pthread_timedjoin_np je t abstime =
     (if join_errno je \<noteq> 0 then (join_errno je, t)
      else case exits_at je of
        None \<Rightarrow> (ETIMEDOUT, max t abstime)
      | Some T \<Rightarrow>
          if T \<le> t then (0, t)
          else if T \<le> abstime then (0, T)
          else (ETIMEDOUT, max t abstime))"

definition pthread_join :: "join_env \<Rightarrow> int \<Rightarrow> (int \<times> int) option" where
  "pthread_join je t =
     (if join_errno je \<noteq> 0 then Some (join_errno je, t)
      else case exits_at je of
        None \<Rightarrow> None
      | Some T \<Rightarrow> Some (0, max t T))"

text \<open>
  \<^verbatim>\<open>ts.tv_sec = 0; ts.tv_nsec = 30000000;\<close>: the \<^verbatim>\<open>struct timespec\<close> the source passes as
  \<^verbatim>\<open>abstime\<close>, in nanoseconds.
\<close>

definition ts :: int where
  "ts = 0 * 1000000000 + 30000000"

text \<open>
  \<^verbatim>\<open>while (res && res == ETIMEDOUT) res = pthread_timedjoin_np(...)\<close>, entered at time
  \<open>t\<close> after \<open>n\<close> calls. The loop has no bound: it does not return while the calls time
  out. The result is the last return value, the time and the number of calls made.
\<close>

partial_function (option) timedjoin_loop ::
  "join_env \<Rightarrow> int \<Rightarrow> nat \<Rightarrow> (int \<times> int \<times> nat) option" where
  "timedjoin_loop je t n =
     (if fst (pthread_timedjoin_np je t ts) = ETIMEDOUT
      then timedjoin_loop je (snd (pthread_timedjoin_np je t ts) + call_ns je) (Suc n)
      else Some (fst (pthread_timedjoin_np je t ts),
                 snd (pthread_timedjoin_np je t ts) + call_ns je, Suc n))"

declare timedjoin_loop.simps [code]

text \<open>
  What a call returns: the return value, the thread list, the log with the time of each
  entry, the time of the return and the number of calls of \<^verbatim>\<open>pthread_timedjoin_np\<close>.
\<close>

record join_result =
  jr_ret :: int
  jr_threads :: "thread_list_t list"
  jr_log :: "(int \<times> logline) list"
  jr_clock :: int
  jr_calls :: nat

definition seconds :: "int \<Rightarrow> int" where
  "seconds t = t div 1000000000"

text \<open>
  After a successful join the joiner unregisters the thread. A thread that was not yet
  waiting to be joined when the list was read has terminated since, and its own cleanup
  handler (\<^verbatim>\<open>thread_unregister\<close>, pushed in \<^verbatim>\<open>thread_run\<close>) has marked its entry at that
  time: \<open>exited\<close> applies that step first.
\<close>

definition join_finish ::
  "join_env \<Rightarrow> nat \<Rightarrow> bool \<Rightarrow> thread_list_t list \<Rightarrow> (int \<times> logline) list \<Rightarrow>
   int \<Rightarrow> int \<Rightarrow> nat \<Rightarrow> join_result" where
  "join_finish je thread exited ths lg res t calls =
     (if res \<noteq> 0 then
        \<lparr>jr_ret = res, jr_threads = ths,
         jr_log = lg @ [(t, (LOG_ERROR, ''pthread_join failed''))], jr_clock = t,
         jr_calls = calls\<rparr>
      else
        let ths1 = (if exited
                    then fst (thread_unregister thread
                           (seconds (case exits_at je of None \<Rightarrow> t | Some T \<Rightarrow> T)) ths)
                    else ths);
            (ths2, lwp, lg2) = thread_unregister thread (seconds t) ths1
        in if lwp = - 1 then
             \<lparr>jr_ret = - 1, jr_threads = ths2,
              jr_log = lg @ map (Pair t) lg2 @
                [(t, (LOG_ERROR, ''attempted to join nonjoinable thread''))],
              jr_clock = t, jr_calls = calls\<rparr>
           else \<lparr>jr_ret = 0, jr_threads = ths2, jr_log = lg @ map (Pair t) lg2, jr_clock = t,
                 jr_calls = calls\<rparr>)"

text \<open>The result is \<open>None\<close> when the call never returns.\<close>

definition bbs_pthread_join ::
  "join_env \<Rightarrow> thread_list_t list \<Rightarrow> nat \<Rightarrow> join_result option" where
  "bbs_pthread_join je ths thread =
     (case find (\<lambda>x. t_id x = thread) ths of
        None \<Rightarrow>
          Some \<lparr>jr_ret = - 1, jr_threads = ths,
                jr_log = [(clock je, (LOG_ERROR, ''Thread not registered''))],
                jr_clock = clock je, jr_calls = 0\<rparr>
      | Some x \<Rightarrow>
          if t_detached x then
            Some \<lparr>jr_ret = - 1, jr_threads = ths,
                  jr_log = [(clock je, (LOG_ERROR, ''Cannot join detached LWP''))],
                  jr_clock = clock je, jr_calls = 0\<rparr>
          else if t_lwp x = 0 then
            Some \<lparr>jr_ret = - 1, jr_threads = ths, jr_log = [], jr_clock = clock je, jr_calls = 0\<rparr>
          else if \<not> t_waitingjoin x then
            (let res = fst (pthread_timedjoin_np je (clock je) ts);
                 t1 = snd (pthread_timedjoin_np je (clock je) ts) + call_ns je
             in if res = ETIMEDOUT then
                  (case timedjoin_loop je t1 1 of
                     None \<Rightarrow> None
                   | Some (res', t2, calls) \<Rightarrow>
                       Some (join_finish je thread True ths
                         [(t1, (LOG_WARNING, ''Thread is not currently waiting to be joined''))]
                         res' t2 calls))
                else Some (join_finish je thread True ths [] res t1 1))
          else
            (case pthread_join je (clock je) of
               None \<Rightarrow> None
             | Some (res, t1) \<Rightarrow> Some (join_finish je thread False ths [] res (t1 + call_ns je) 0)))"

subsection \<open>Notions used in the statements\<close>

text \<open>
  What a broadcast leaves alone: the relation between a participant before and after
  one traversal.
\<close>

definition untouched :: "nat option \<Rightarrow> string option \<Rightarrow> participant \<Rightarrow> participant \<Rightarrow> bool" where
  "untouched sender chan p p' \<longleftrightarrow>
     p_addr p' = p_addr p \<and> node p' = node p \<and> channel p' = channel p \<and>
     (sender = Some (p_addr p) \<longrightarrow> p' = p) \<and>
     (\<not> strlen_zero chan \<and> channel p \<noteq> chan \<longrightarrow> p' = p)"



subsection \<open>Sample data\<close>

definition ex_tm :: tm where
  "ex_tm = \<lparr>tm_sec = 9, tm_min = 5, tm_hour = 13, tm_mday = 2, tm_mon = 10\<rparr>"

definition ex_env :: env where
  "ex_env = \<lparr>sendtime = ex_tm, res_uninit = 0, vasprintf_ok = True,
     timebuf = ''Mon Nov  2 2026 01:05:09 pm UTC'', BBS_SHORTNAME = ''LBBS'',
     COLOR_GREEN = ''[G]'', COLOR_RED = ''[R]'', COLOR_CYAN = ''[C]'', COLOR_RESET = ''[0]''\<rparr>"

definition ex_pipe :: pipe where
  "ex_pipe = \<lparr>pipe_data = [], rd_open = True, wr_open = True\<rparr>"

definition participant_A :: participant where
  "participant_A = \<lparr>p_addr = 1,
     node = \<lparr>node_id = 1, node_tdd = False, node_user = ''alice''\<rparr>,
     p_client = 100, channel = Some ''#lobby'', chatpipe = ex_pipe\<rparr>"

definition participant_B :: participant where
  "participant_B = \<lparr>p_addr = 2,
     node = \<lparr>node_id = 2, node_tdd = False, node_user = ''bob''\<rparr>,
     p_client = 100, channel = Some ''#lobby'', chatpipe = ex_pipe\<rparr>"

definition participant_C :: participant where
  "participant_C = \<lparr>p_addr = 3,
     node = \<lparr>node_id = 3, node_tdd = False, node_user = ''carol''\<rparr>,
     p_client = 100, channel = Some ''#other'', chatpipe = ex_pipe\<rparr>"

text \<open>A participant on a TDD, and one whose pipe has lost its reader.\<close>

definition participant_T :: participant where
  "participant_T = \<lparr>p_addr = 4,
     node = \<lparr>node_id = 4, node_tdd = True, node_user = ''ted''\<rparr>,
     p_client = 100, channel = Some ''#lobby'', chatpipe = ex_pipe\<rparr>"

definition participant_X :: participant where
  "participant_X = \<lparr>p_addr = 5,
     node = \<lparr>node_id = 5, node_tdd = False, node_user = ''xena''\<rparr>,
     p_client = 100, channel = Some ''#lobby'', chatpipe = ex_pipe\<lparr>rd_open := False\<rparr>\<rparr>"

definition ex_irc :: irc_client where
  "ex_irc = \<lparr>ic_hostname = Some ''irc.example.org'', ic_port = 6667,
     ic_username = Some ''bbs'', ic_password = None, ic_autojoin = Some ''#lobby'',
     ic_flags = [], ic_sent = []\<rparr>"

definition ex_ctcp_msg :: irc_msg where
  "ex_ctcp_msg = \<lparr>prefix = Some ''nick!u@h'', numeric = 0, command = None,
     body = Some (''#lobby :'' @ [SOH] @ ''PING 12345'' @ [SOH])\<rparr>"

text \<open>An uninitialised array of 513 bytes, and the reader's locals once 512 bytes without
  a line end have been read into it.\<close>

definition ex_buf0 :: "char list" where
  "ex_buf0 = replicate 513 CHR ''#''"

definition ex_full :: relay_state where
  "ex_full = \<lparr>readbuf = replicate 512 CHR ''a'' @ [NUL], mybuf = 512, mylen = 0, start = 0,
     rlog = []\<rparr>"

definition ex_client :: "participant list \<Rightarrow> client" where
  "ex_client ps = \<lparr>c_addr = 100, participants = ps, irc = ex_irc, c_thread = True,
     c_log = False, logfile = None, c_name = ''net1''\<rparr>"

text \<open>A configuration, and the module after load, start, a join with its channel, and
  unload.\<close>

definition ex_le :: load_env where
  "ex_le = \<lparr>calloc_client = (\<lambda>i. Some (100 + i)), irc_client_new_ok = (\<lambda>i. True),
            logfile_uninit = False\<rparr>"

definition ex_section :: "string \<Rightarrow> string \<Rightarrow> bbs_config_section" where
  "ex_section nm host = \<lparr>sect_name = nm, sect_hostname = Some host, sect_username = Some ''bbs'',
     sect_password = None, sect_autojoin = Some ''#lobby''\<rparr>"

definition ex_cfg :: "bbs_config_section list \<Rightarrow> bbs_config" where
  "ex_cfg secs = \<lparr>sections = secs, val_uint = (\<lambda>nm key. None), val_true = (\<lambda>nm key. None)\<rparr>"

definition ex_net1 :: "bool \<Rightarrow> participant list \<Rightarrow> client" where
  "ex_net1 started ps = \<lparr>c_addr = 100, participants = ps,
     irc = \<lparr>ic_hostname = Some ''irc.a.org'', ic_port = 0, ic_username = Some ''bbs'',
            ic_password = None, ic_autojoin = Some ''#lobby'', ic_flags = [], ic_sent = []\<rparr>,
     c_thread = started, c_log = False, logfile = None, c_name = ''net1''\<rparr>"

definition ex_loaded :: registry where
  "ex_loaded = registry_init\<lparr>clients := [ex_net1 False []]\<rparr>"

definition ex_started :: registry where
  "ex_started = registry_init\<lparr>clients := [ex_net1 True []]\<rparr>"

definition ex_joined :: registry where
  "ex_joined = registry_init\<lparr>clients := [ex_net1 True [participant_A\<lparr>channel := None\<rparr>]]\<rparr>"

definition ex_chatting :: registry where
  "ex_chatting = registry_init\<lparr>clients := [ex_net1 True [participant_A]]\<rparr>"

definition ex_unloaded :: registry where
  "ex_unloaded = registry_init\<lparr>unloading := True,
     detached := [participant_A\<lparr>chatpipe := ex_pipe\<lparr>wr_open := False\<rparr>\<rparr>]\<rparr>"



subsection \<open>Properties of the timestamp\<close>

lemma length_dec_one: "n < 10 \<Longrightarrow> length (dec n) = 1"
  by (subst dec.simps) simp

lemma length_dec_two: "10 \<le> n \<Longrightarrow> n < 100 \<Longrightarrow> length (dec n) = 2"
proof -
  assume a: "10 \<le> n" and b: "n < 100"
  have "n div 10 < 10" using b by simp
  then have "length (dec (n div 10)) = 1" by (rule length_dec_one)
  then show ?thesis using a by (subst dec.simps) simp
qed

lemma length_pad2: "0 \<le> i \<Longrightarrow> i < 100 \<Longrightarrow> length (pad2 i) = 2"
  by (simp add: pad2_def length_dec_one length_dec_two)

lemma hour12_range: "0 \<le> h \<Longrightarrow> 1 \<le> hour12 h \<and> hour12 h \<le> 12"
proof -
  assume "0 \<le> h"
  have "0 \<le> h mod 12" "h mod 12 < 12" by simp_all
  then show ?thesis unfolding hour12_def by (auto simp: less_le)
qed

lemma length_ampm: "length (ampm h) = 2"
  by (simp add: ampm_def)

lemma length_datestr_format:
  assumes "valid_tm t"
  shows "length (datestr_format t) = 17"
proof -
  have m: "length (pad2 (tm_mon t + 1)) = 2"
    using assms by (intro length_pad2) (simp_all add: valid_tm_def)
  have d: "length (pad2 (tm_mday t)) = 2"
    using assms by (intro length_pad2) (simp_all add: valid_tm_def)
  have h: "length (pad2 (hour12 (tm_hour t))) = 2"
    using assms hour12_range [of "tm_hour t"]
    by (intro length_pad2) (simp_all add: valid_tm_def)
  have mi: "length (pad2 (tm_min t)) = 2"
    using assms by (intro length_pad2) (simp_all add: valid_tm_def)
  have s: "length (pad2 (tm_sec t)) = 2"
    using assms by (intro length_pad2) (simp_all add: valid_tm_def)
  show ?thesis
    by (simp add: datestr_format_def m d h mi s length_ampm)
qed

subsection \<open>Properties of the broadcast engine\<close>

lemma relay_participants_filters:
  "strlen_zero chan \<or> (\<forall>p\<in>set ps. channel p \<noteq> None) \<Longrightarrow>
   \<exists>ps' lg. relay_participants sender chan datestr msg res ps = Inr (ps', lg) \<and>
     list_all2 (untouched sender chan) ps ps'"
proof (induction ps arbitrary: res)
  case Nil
  then show ?case by simp
next
  case (Cons p ps)
  have ih: "\<And>r. \<exists>ps' lg. relay_participants sender chan datestr msg r ps = Inr (ps', lg) \<and>
     list_all2 (untouched sender chan) ps ps'"
    using Cons by auto
  show ?case
  proof (cases "sender = Some (p_addr p)")
    case True
    have "untouched sender chan p p" by (simp add: untouched_def)
    then show ?thesis using True ih [of res] by (auto simp: keep_participant_def)
  next
    case False
    note ns = this
    show ?thesis
    proof (cases "\<not> strlen_zero chan \<and> channel p \<noteq> chan")
      case True
      then have "channel p \<noteq> None" using Cons.prems by auto
      moreover have "untouched sender chan p p" by (simp add: untouched_def)
      ultimately show ?thesis using ih [of res] ns True
        by (auto simp: keep_participant_def)
    next
      case False
      obtain q1 res1 where w1: "(if \<not> node_tdd (node p) then write_pipe (chatpipe p) datestr
                          else (chatpipe p, res)) = (q1, res1)" by fastforce
      obtain q2 res2 where w2: "(if res1 > 0 then write_pipe q1 msg else (q1, res1)) = (q2, res2)"
        by fastforce
      from ih [of res2] obtain ps' lg where
        r: "relay_participants sender chan datestr msg res2 ps = Inr (ps', lg)"
        and l: "list_all2 (untouched sender chan) ps ps'" by blast
      have "untouched sender chan p (p\<lparr>chatpipe := q2\<rparr>)"
        using ns False by (auto simp: untouched_def)
      then show ?thesis using ns False w1 w2 r l
        by (auto simp: Let_def strlen_zero_def)
    qed
  qed
qed

text \<open>
  Claim C1. A broadcast on a client returns, keeps the participant list in place, never
  writes to the pipe of the participant that is the sender, and, when the channel
  argument is not empty, never writes to the pipe of a participant whose channel differs
  from it. (The participants have their channel assigned, as \<^verbatim>\<open>irc_client_exec\<close> does
  right after the join.)
\<close>

theorem broadcast_skips_sender_and_other_channels:
  assumes "valid_tm (sendtime e)"
    and "strlen_zero chan \<or> (\<forall>p\<in>set (participants c). channel p \<noteq> None)"
  shows "\<exists>c' lg. chat_send_raw e c sender chan dorelay msg = Inr (c', lg, 0) \<and>
     length (participants c') = length (participants c) \<and>
     (\<forall>i<length (participants c).
        p_addr (participants c' ! i) = p_addr (participants c ! i) \<and>
        (sender = Some (p_addr (participants c ! i)) \<longrightarrow>
           chatpipe (participants c' ! i) = chatpipe (participants c ! i)) \<and>
        (\<not> strlen_zero chan \<and> channel (participants c ! i) \<noteq> chan \<longrightarrow>
           chatpipe (participants c' ! i) = chatpipe (participants c ! i)))"
proof -
  define c1 where "c1 = (if dorelay then irc_out (IrcMsg chan msg) c else c)"
  have pc1: "participants c1 = participants c"
    by (simp add: c1_def irc_out_def)
  have d: "datestr_of (sendtime e) = Some (datestr_format (sendtime e))"
    using length_datestr_format [OF assms(1)] by (simp add: datestr_of_def strftime_def)
  obtain ps' lg where
    r: "relay_participants sender chan (datestr_format (sendtime e)) msg (res_uninit e)
          (participants c) = Inr (ps', lg)"
    and l: "list_all2 (untouched sender chan) (participants c) ps'"
    using relay_participants_filters [OF assms(2)] by blast
  have len: "length ps' = length (participants c)"
    using l by (simp add: list_all2_lengthD)
  have nth: "\<And>i. i < length (participants c) \<Longrightarrow>
      untouched sender chan (participants c ! i) (ps' ! i)"
    using l by (simp add: list_all2_conv_all_nth)
  have "chat_send_raw e c sender chan dorelay msg =
          Inr (c1\<lparr>participants := ps'\<rparr>,
               bbs_assert (length (datestr_format (sendtime e)) = 17) ''timelen == 17'' @ lg, 0)"
    using d r pc1 by (simp add: chat_send_raw_def Let_def c1_def [symmetric])
  moreover have "\<forall>i<length (participants c).
        p_addr (ps' ! i) = p_addr (participants c ! i) \<and>
        (sender = Some (p_addr (participants c ! i)) \<longrightarrow>
           chatpipe (ps' ! i) = chatpipe (participants c ! i)) \<and>
        (\<not> strlen_zero chan \<and> channel (participants c ! i) \<noteq> chan \<longrightarrow>
           chatpipe (ps' ! i) = chatpipe (participants c ! i))"
    using nth by (auto simp: untouched_def)
  ultimately show ?thesis using len by simp
qed

theorem broadcast_skips_sender_and_other_channels_witness:
  "valid_tm (sendtime ex_env) \<and>
   (strlen_zero (Some ''#lobby'') \<or>
      (\<forall>p\<in>set (participants (ex_client [participant_A, participant_B, participant_C])).
          channel p \<noteq> None)) \<and>
   (\<exists>c' lg. chat_send_raw ex_env (ex_client [participant_A, participant_B, participant_C])
        (Some 1) (Some ''#lobby'') True ''hi'' = Inr (c', lg, 0) \<and>
     length (participants c') =
       length (participants (ex_client [participant_A, participant_B, participant_C])) \<and>
     (\<forall>i<length (participants (ex_client [participant_A, participant_B, participant_C])).
        p_addr (participants c' ! i) =
          p_addr (participants (ex_client [participant_A, participant_B, participant_C]) ! i) \<and>
        (Some 1 = Some (p_addr (participants
            (ex_client [participant_A, participant_B, participant_C]) ! i)) \<longrightarrow>
           chatpipe (participants c' ! i) =
           chatpipe (participants (ex_client [participant_A, participant_B, participant_C]) ! i)) \<and>
        (\<not> strlen_zero (Some ''#lobby'') \<and>
         channel (participants (ex_client [participant_A, participant_B, participant_C]) ! i)
           \<noteq> Some ''#lobby'' \<longrightarrow>
           chatpipe (participants c' ! i) =
           chatpipe (participants (ex_client [participant_A, participant_B, participant_C]) ! i))))"
proof -
  have h1: "valid_tm (sendtime ex_env)"
    by (simp add: ex_env_def ex_tm_def valid_tm_def)
  have h2: "strlen_zero (Some ''#lobby'') \<or>
      (\<forall>p\<in>set (participants (ex_client [participant_A, participant_B, participant_C])).
          channel p \<noteq> None)"
    by (simp add: ex_client_def participant_A_def participant_B_def participant_C_def)
  show ?thesis
    by (intro conjI h1 h2 broadcast_skips_sender_and_other_channels [OF h1 h2])
qed

text \<open>
  The same broadcast, evaluated: the sender's pipe and the pipe of the participant on
  the other channel stay empty, the third participant receives timestamp and text.
\<close>

lemma broadcast_example:
  "chat_send_raw ex_env (ex_client [participant_A, participant_B, participant_C])
     (Some 1) (Some ''#lobby'') True ''hi'' =
   Inr ((ex_client [participant_A,
           participant_B\<lparr>chatpipe := ex_pipe\<lparr>pipe_data := ''11-02 01:05:09pm hi''\<rparr>\<rparr>,
           participant_C])
         \<lparr>irc := ex_irc\<lparr>ic_sent := [IrcMsg (Some ''#lobby'') ''hi'']\<rparr>\<rparr>, [], 0)"
  by code_simp

text \<open>
  Claim C8. A participant on a TDD that passes both filters must receive the text
  without the timestamp. The code tests \<^verbatim>\<open>res > 0\<close> before writing the text, and for a
  TDD \<^verbatim>\<open>res\<close> still holds what the previous participant's \<^verbatim>\<open>write\<close> returned, or no
  value at all for the first participant. Evaluated here: after a participant whose
  write fails, the TDD participant with a working pipe receives nothing, whatever the
  initial content of \<^verbatim>\<open>res\<close>; alone in the list it receives nothing when that content
  is not positive. The comment in the source, "Even if one send fails, don't fail all of
  them", states the opposite.
\<close>

theorem tdd_participant_skipped_after_failed_write:
  "chat_send_raw (ex_env\<lparr>res_uninit := 17\<rparr>) (ex_client [participant_X, participant_T])
      None (Some ''#lobby'') False (''hi'' @ [CHR 0x0A]) =
   Inr (ex_client [participant_X, participant_T],
        [(LOG_ERROR, ''write failed''), (LOG_ERROR, ''write failed'')], 0) \<and>
   chat_send_raw (ex_env\<lparr>res_uninit := 0\<rparr>) (ex_client [participant_T])
      None (Some ''#lobby'') False (''hi'' @ [CHR 0x0A]) =
   Inr (ex_client [participant_T], [(LOG_ERROR, ''write failed'')], 0)"
  by code_simp

text \<open>With a positive value in \<^verbatim>\<open>res\<close> the same participant receives the text.\<close>

lemma tdd_participant_alone_example:
  "chat_send_raw (ex_env\<lparr>res_uninit := 17\<rparr>) (ex_client [participant_T])
      None (Some ''#lobby'') False (''hi'' @ [CHR 0x0A]) =
   Inr (ex_client [participant_T\<lparr>chatpipe := ex_pipe\<lparr>pipe_data := ''hi'' @ [CHR 0x0A]\<rparr>\<rparr>],
        [], 0)"
  by code_simp

text \<open>
  A participant on an ordinary terminal that passes both filters and whose pipe is open
  receives the timestamp followed by the text, wherever it stands in the list.
\<close>

lemma relay_participants_ordinary:
  assumes "relay_participants sender chan datestr msg res ps = Inr (ps', lg)"
    and "i < length ps" and "sender \<noteq> Some (p_addr (ps ! i))"
    and "strlen_zero chan \<or> channel (ps ! i) = chan"
    and "\<not> node_tdd (node (ps ! i))"
    and "wr_open (chatpipe (ps ! i))" and "rd_open (chatpipe (ps ! i))" and "datestr \<noteq> []"
  shows "pipe_data (chatpipe (ps' ! i)) = pipe_data (chatpipe (ps ! i)) @ datestr @ msg"
  using assms
proof (induction ps arbitrary: res ps' lg i)
  case Nil
  then show ?case by simp
next
  case (Cons p ps)
  show ?case
  proof (cases i)
    case 0
    then show ?thesis using Cons.prems
      by (auto simp: keep_participant_def Let_def write_pipe_def strlen_zero_def
               split: if_splits sum.splits prod.splits)
  next
    case (Suc j)
    then show ?thesis using Cons.prems Cons.IH [of _ _ _ j]
      by (auto simp: keep_participant_def Let_def split: if_splits sum.splits prod.splits)
  qed
qed

text \<open>
  Claim C10. For every broken-down time within the ranges of \<^verbatim>\<open>struct tm\<close>, the
  timestamp fits the 18-byte array, is 17 bytes long, and the assertion on its length
  logs nothing.
\<close>

theorem datestr_is_17_bytes:
  assumes "valid_tm t"
  shows "\<exists>s. datestr_of t = Some s \<and> length s = 17 \<and>
           bbs_assert (length s = 17) ''timelen == 17'' = []"
  using length_datestr_format [OF assms]
  by (simp add: datestr_of_def strftime_def bbs_assert_def)

theorem datestr_is_17_bytes_witness:
  "valid_tm ex_tm \<and>
   (\<exists>s. datestr_of ex_tm = Some s \<and> length s = 17 \<and>
        bbs_assert (length s = 17) ''timelen == 17'' = [])"
proof -
  have v: "valid_tm ex_tm"
    by (simp add: valid_tm_def ex_tm_def)
  show ?thesis using v datestr_is_17_bytes [OF v] by simp
qed

lemma datestr_example: "datestr_of ex_tm = Some ''11-02 01:05:09pm ''"
  by code_simp

subsection \<open>Properties of the dispatcher\<close>

lemma takeWhile_upto: "d \<notin> set t \<Longrightarrow> takeWhile (\<lambda>x. x \<noteq> d) (t @ d # r) = t"
  by (induction t) auto













lemma ctcp_ping_example:
  "handle_irc_msg ex_env (ex_client [participant_A, participant_C])
     (ex_ctcp_msg\<lparr>command := Some ''PRIVMSG''\<rparr>) =
   Inr ((ex_client [participant_A, participant_C])
          \<lparr>irc := ex_irc\<lparr>ic_sent := [CtcpReply ''nick'' CTCP_PING (Some ''12345'')]\<rparr>\<rparr>, [])"
  by code_simp

text \<open>
  Claim C6. The dispatcher compares the command with \<^verbatim>\<open>"KICKED"\<close>, a token no server
  sends; every message whose command is \<^verbatim>\<open>KICK\<close> reaches the last branch: it is logged
  as unhandled, the client is returned as it was and nothing is written to any
  participant.
\<close>

theorem kick_is_logged_as_unhandled:
  "handle_irc_msg e c \<lparr>prefix = p, numeric = 0, command = Some ''KICK'', body = b\<rparr> =
   Inr (c, [(LOG_WARNING,
          ''Unhandled command: prefix: '' @ fmt_s p @ '', command: KICK, body: '' @ fmt_s b)])"
  by (simp add: handle_irc_msg_def)

lemma kick_example:
  "handle_irc_msg ex_env (ex_client [participant_A, participant_B])
     \<lparr>prefix = Some ''op!u@h'', numeric = 0, command = Some ''KICK'',
      body = Some ''#lobby bob :bye''\<rparr> =
   Inr (ex_client [participant_A, participant_B],
        [(LOG_WARNING,
          ''Unhandled command: prefix: op!u@h, command: KICK, body: #lobby bob :bye'')])"
  by code_simp

text \<open>The same message with the command \<^verbatim>\<open>PART\<close> or \<^verbatim>\<open>KICKED\<close> is announced.\<close>

lemma part_is_relayed_example:
  "handle_irc_msg ex_env (ex_client [participant_A, participant_B])
     \<lparr>prefix = Some ''op!u@h'', numeric = 0, command = Some ''PART'',
      body = Some ''#lobby''\<rparr> =
   Inr (ex_client
          [participant_A\<lparr>chatpipe := ex_pipe\<lparr>pipe_data :=
             ''11-02 01:05:09pm op!u@h has [R]left[0]'' @ [LF]\<rparr>\<rparr>,
           participant_B\<lparr>chatpipe := ex_pipe\<lparr>pipe_data :=
             ''11-02 01:05:09pm op!u@h has [R]left[0]'' @ [LF]\<rparr>\<rparr>], [])"
  by code_simp

lemma kicked_is_relayed_example:
  "handle_irc_msg ex_env (ex_client [participant_A, participant_B])
     \<lparr>prefix = Some ''op!u@h'', numeric = 0, command = Some ''KICKED'',
      body = Some ''#lobby''\<rparr> =
   Inr (ex_client
          [participant_A\<lparr>chatpipe := ex_pipe\<lparr>pipe_data :=
             ''11-02 01:05:09pm op!u@h has been [R]kicked[0]'' @ [LF]\<rparr>\<rparr>,
           participant_B\<lparr>chatpipe := ex_pipe\<lparr>pipe_data :=
             ''11-02 01:05:09pm op!u@h has been [R]kicked[0]'' @ [LF]\<rparr>\<rparr>], [])"
  by code_simp

subsection \<open>Properties of the relay reader\<close>

lemma find_crlf_Cons:
  "find_crlf (x # xs) =
     (case xs of [] \<Rightarrow> None
      | y # r \<Rightarrow> if x = NUL then None else if x = CR \<and> y = LF then Some 0
                 else map_option Suc (find_crlf xs))"
  by (cases xs) simp_all

lemma find_crlf_append: "find_crlf xs = Some i \<Longrightarrow> find_crlf (xs @ ys) = Some i"
proof (induction xs arbitrary: i rule: find_crlf.induct)
  case 1
  then show ?case by simp
next
  case (2 x)
  then show ?case by simp
next
  case (3 x y r)
  then show ?case by (auto split: if_splits)
qed

lemma line_tail:
  "find_crlf ((x # l) @ [CR, LF]) = Some (length (x # l)) \<Longrightarrow>
   find_crlf (l @ [CR, LF]) = Some (length l) \<and> x \<noteq> NUL \<and>
   \<not> (x = CR \<and> hd (l @ [CR, LF]) = LF)"
  by (cases l) (auto simp: find_crlf_Cons split: if_splits)

lemma line_no_NUL: "find_crlf (l @ [CR, LF]) = Some (length l) \<Longrightarrow> NUL \<notin> set l"
proof (induction l)
  case Nil
  then show ?case by simp
next
  case (Cons x l)
  then show ?case using line_tail [OF Cons.prems] by auto
qed

lemma line_drop:
  "find_crlf (l @ [CR, LF]) = Some (length l) \<Longrightarrow> k \<le> length l \<Longrightarrow>
   find_crlf (drop k l @ [CR, LF]) = Some (length l - k)"
proof (induction l arbitrary: k)
  case Nil
  then show ?case by simp
next
  case (Cons x l)
  show ?case
  proof (cases k)
    case 0
    then show ?thesis using Cons.prems by simp
  next
    case (Suc j)
    then show ?thesis using Cons.IH [of j] line_tail [OF Cons.prems(1)] Cons.prems(2) by simp
  qed
qed

lemma line_take:
  "find_crlf (l @ [CR, LF]) = Some (length l) \<Longrightarrow> find_crlf (take k l @ NUL # r) = None"
proof (induction l arbitrary: k)
  case Nil
  then show ?case by (simp add: find_crlf_Cons split: list.splits)
next
  case (Cons x l)
  note t = line_tail [OF Cons.prems]
  show ?case
  proof (cases k)
    case 0
    then show ?thesis by (simp add: find_crlf_Cons split: list.splits)
  next
    case (Suc j)
    have ih: "find_crlf (take j l @ NUL # r) = None" using Cons.IH t by simp
    have hd: "\<not> (x = CR \<and> hd (take j l @ NUL # r) = LF)"
      using t by (cases l; cases j) auto
    show ?thesis using Suc ih hd t
      by (cases "take j l @ NUL # r") (auto simp: find_crlf_Cons)
  qed
qed

lemma cstr_line: "NUL \<notin> set xs \<Longrightarrow> cstr (xs @ NUL # r) 0 = xs"
  by (simp add: cstr_def takeWhile_upto)

lemma byte_at_end: "byte_at (xs @ NUL # r) (length xs) = NUL"
  by (simp add: byte_at_def nth_append)

lemma compact_idle: "1 < mylen s \<Longrightarrow> compact N s = s"
  by (simp add: compact_def)

lemma relay_loop_end: "1 < mylen s \<Longrightarrow> relay_loop N h s c [] = Inr (s, c)"
  by (subst relay_loop.simps) (simp add: compact_idle)

lemma scan_single_line:
  assumes l: "find_crlf (l @ [CR, LF]) = Some (length l)"
    and b: "readbuf s = l @ [CR, LF] @ NUL # r" and st: "start s = 0" and m: "mybuf s \<le> length l"
  shows "scan_lines N record_line pb pl res s acc =
           Inr (s\<lparr>mylen := int N, start := 0, mybuf := 0\<rparr>, acc @ [l @ [CR, LF]])"
proof -
  have "find_crlf (drop (mybuf s) l @ [CR, LF]) = Some (length l - mybuf s)"
    by (rule line_drop [OF l m])
  then have "find_crlf ((drop (mybuf s) l @ [CR, LF]) @ NUL # r) = Some (length l - mybuf s)"
    by (rule find_crlf_append)
  then have f: "strstr_crlf (readbuf s) (mybuf s) = Some (length l)"
    using m by (simp add: strstr_crlf_def b)
  have z: "byte_at (readbuf s) (Suc (Suc (length l))) = NUL"
    using byte_at_end [of "l @ [CR, LF]" r] by (simp add: b)
  have "NUL \<notin> set (l @ [CR, LF])" using line_no_NUL [OF l] by simp
  then have c: "cstr (readbuf s) 0 = l @ [CR, LF]"
    using cstr_line [of "l @ [CR, LF]" r] by (simp add: b)
  show ?thesis
    by (subst scan_lines.simps) (simp add: f z c st record_line_def Let_def)
qed

text \<open>
  A complete line is \<open>l @ [CR, LF]\<close> whose first line end is the final one (so \<open>l\<close>
  holds no zero byte and no CR LF). Read at once, or in two reads split anywhere up to
  the CR, it is dispatched once and whole; split between CR and LF it is not dispatched.
\<close>

lemma dispatch_in_one_read:
  assumes l: "find_crlf (l @ [CR, LF]) = Some (length l)" and n: "length l + 2 \<le> N"
  shows "dispatched (relay_loop N record_line (relay_init N buf0) acc [l @ [CR, LF]]) =
           Inr (acc @ [l @ [CR, LF]])"
proof -
  let ?s0 = "relay_init N buf0"
  let ?s1 = "?s0\<lparr>readbuf := store buf0 0 ((l @ [CR, LF]) @ [NUL])\<rparr>"
  have c0: "compact N ?s0 = ?s0" using n by (intro compact_idle) (simp add: relay_init_def)
  have rd: "net_read N [l @ [CR, LF]] = Some (l @ [CR, LF], [])" using n by simp
  have b: "readbuf ?s1 = l @ [CR, LF] @ NUL # drop (length l + 3) buf0"
    by (simp add: store_def numeral_3_eq_3)
  have sc: "scan_lines N record_line 0 (int N) (int (length (l @ [CR, LF]))) ?s1 acc =
      Inr (?s1\<lparr>mylen := int N, start := 0, mybuf := 0\<rparr>, acc @ [l @ [CR, LF]])"
    by (rule scan_single_line [OF l b]) (simp_all add: relay_init_def)
  have "relay_loop N record_line ?s0 acc [l @ [CR, LF]] =
          relay_loop N record_line (?s1\<lparr>mylen := int N, start := 0, mybuf := 0\<rparr>)
            (acc @ [l @ [CR, LF]]) []"
    apply (subst relay_loop.simps)
    apply (simp only: c0 Let_def)
    using rd sc by (simp add: relay_init_def)
  also have "\<dots> = Inr (?s1\<lparr>mylen := int N, start := 0, mybuf := 0\<rparr>, acc @ [l @ [CR, LF]])"
    using n by (intro relay_loop_end) simp
  finally show ?thesis by (simp add: dispatched_def)
qed



lemma store_after: "length a = k \<Longrightarrow> store (a @ x # r) k (b @ [y]) = a @ b @ y # drop (length b) r"
  by (simp add: store_def)

lemma relay_loop_step:
  assumes "1 < mylen s" and "net_read (nat (mylen s)) input = Some (bytes, rest)"
    and "scan_lines N h (mybuf s) (mylen s) (int (length bytes))
           (s\<lparr>readbuf := store (readbuf s) (mybuf s) (bytes @ [NUL])\<rparr>) c = Inr (s2, c')"
  shows "relay_loop N h s c input = relay_loop N h s2 c' rest"
  by (subst relay_loop.simps) (simp add: compact_idle assms Let_def)

lemma scan_fragment:
  assumes "strstr_crlf (readbuf s) (mybuf s) = None"
  shows "scan_lines N h pb pl res s acc = Inr (s\<lparr>mybuf := pb + nat res, mylen := pl - res\<rparr>, acc)"
  using assms by (subst scan_lines.simps) simp

lemma dispatch_in_two_reads:
  assumes l: "find_crlf (l @ [CR, LF]) = Some (length l)" and n: "length l + 2 \<le> N"
    and k0: "0 < k" and k: "k \<le> length l"
  shows "dispatched (relay_loop N record_line (relay_init N buf0) acc
            [take k (l @ [CR, LF]), drop k (l @ [CR, LF])]) = Inr (acc @ [l @ [CR, LF]])"
proof -
  let ?a = "take k l"
  let ?b = "drop k l @ [CR, LF]"
  let ?s0 = "relay_init N buf0"
  let ?r = "drop (Suc k) buf0"
  let ?s1 = "?s0\<lparr>readbuf := ?a @ NUL # ?r\<rparr>"
  let ?s2 = "?s1\<lparr>mybuf := k, mylen := int N - int k\<rparr>"
  let ?s3 = "?s2\<lparr>readbuf := l @ [CR, LF] @ NUL # drop (length ?b) ?r\<rparr>"
  let ?s4 = "?s3\<lparr>mylen := int N, start := 0, mybuf := 0\<rparr>"
  have tk: "take k (l @ [CR, LF]) = ?a" and dk: "drop k (l @ [CR, LF]) = ?b"
    using k by simp_all
  have la: "length ?a = k" using k by simp
  have ane: "?a \<noteq> []" using k0 k by (cases l) auto
  have c0: "compact N ?s0 = ?s0" using n by (intro compact_idle) (simp add: relay_init_def)
  have rd1: "net_read N [?a, ?b] = Some (?a, [?b])" using ane k n by simp
  have st1: "store buf0 0 (?a @ [NUL]) = ?a @ NUL # ?r"
    using la by (simp add: store_def)
  have nf: "strstr_crlf (readbuf ?s1) (mybuf ?s1) = None"
    using line_take [OF l, of k ?r] by (simp add: strstr_crlf_def relay_init_def)
  have sc1: "scan_lines N record_line 0 (int N) (int (length ?a)) ?s1 acc = Inr (?s2, acc)"
    using scan_fragment [OF nf, of N record_line 0 "int N" "int (length ?a)" acc] la by simp
  have step1: "relay_loop N record_line ?s0 acc [?a, ?b] = relay_loop N record_line ?s2 acc [?b]"
    apply (subst relay_loop.simps)
    apply (simp only: c0 Let_def)
    using rd1 sc1 st1 by (simp add: relay_init_def)
  have c2: "compact N ?s2 = ?s2" using n k by (intro compact_idle) simp
  have rd2: "net_read (N - k) [?b] = Some (?b, [])" using k n by simp
  have "store (?a @ NUL # ?r) k (?b @ [NUL]) = ?a @ ?b @ NUL # drop (length ?b) ?r"
    by (rule store_after [OF la])
  then have st2: "store (?a @ NUL # ?r) k (?b @ [NUL]) = l @ [CR, LF] @ NUL # drop (length ?b) ?r"
    by simp
  have sc2: "scan_lines N record_line k (int N - int k) (int (length ?b)) ?s3 acc =
      Inr (?s4, acc @ [l @ [CR, LF]])"
    by (rule scan_single_line [OF l]) (simp_all add: relay_init_def k)
  have step2: "relay_loop N record_line ?s2 acc [?b] =
      relay_loop N record_line ?s4 (acc @ [l @ [CR, LF]]) []"
    apply (subst relay_loop.simps)
    apply (simp only: c2 Let_def)
    using rd2 sc2 st2 k n by (simp add: relay_init_def nat_diff_distrib')
  have "relay_loop N record_line ?s4 (acc @ [l @ [CR, LF]]) [] = Inr (?s4, acc @ [l @ [CR, LF]])"
    using n by (intro relay_loop_end) simp
  then show ?thesis unfolding tk dk step1 step2 by (simp add: dispatched_def)
qed


lemma find_crlf_NUL: "find_crlf (NUL # r) = None"
  by (cases r) simp_all

lemma line_cr_only:
  "find_crlf (l @ [CR, LF]) = Some (length l) \<Longrightarrow> find_crlf (l @ CR # NUL # r) = None"
proof (induction l)
  case Nil
  then show ?case by (simp add: find_crlf_NUL)
next
  case (Cons x l)
  note t = line_tail [OF Cons.prems]
  have ih: "find_crlf (l @ CR # NUL # r) = None" using Cons.IH t by simp
  have hd: "\<not> (x = CR \<and> hd (l @ CR # NUL # r) = LF)"
    using t by (cases l) auto
  show ?case using ih hd t
    by (cases "l @ CR # NUL # r") (auto simp: find_crlf_Cons)
qed

lemma no_dispatch_when_split_between_cr_and_lf:
  assumes l: "find_crlf (l @ [CR, LF]) = Some (length l)" and n: "length l + 3 < N"
  shows "dispatched (relay_loop N record_line (relay_init N buf0) acc [l @ [CR], [LF]]) = Inr acc"
proof -
  let ?a = "l @ [CR]"
  let ?k = "Suc (length l)"
  let ?s0 = "relay_init N buf0"
  let ?r = "drop (Suc ?k) buf0"
  let ?s1 = "?s0\<lparr>readbuf := ?a @ NUL # ?r\<rparr>"
  let ?s2 = "?s1\<lparr>mybuf := ?k, mylen := int N - int ?k\<rparr>"
  let ?s3 = "?s2\<lparr>readbuf := ?a @ [LF] @ NUL # drop 1 ?r\<rparr>"
  let ?s4 = "?s3\<lparr>mybuf := Suc ?k, mylen := int N - int ?k - 1\<rparr>"
  have la: "length ?a = ?k" by simp
  have c0: "compact N ?s0 = ?s0" using n by (intro compact_idle) (simp add: relay_init_def)
  have rd1: "net_read N [?a, [LF]] = Some (?a, [[LF]])" using n by simp
  have st1: "store buf0 0 (?a @ [NUL]) = ?a @ NUL # ?r"
    by (simp add: store_def)
  have nf: "strstr_crlf (readbuf ?s1) (mybuf ?s1) = None"
    using line_cr_only [OF l, of ?r] by (simp add: strstr_crlf_def relay_init_def)
  have sc1: "scan_lines N record_line 0 (int N) (int (length ?a)) ?s1 acc = Inr (?s2, acc)"
    using scan_fragment [OF nf, of N record_line 0 "int N" "int (length ?a)" acc] by simp
  have step1: "relay_loop N record_line ?s0 acc [?a, [LF]] = relay_loop N record_line ?s2 acc [[LF]]"
    apply (subst relay_loop.simps)
    apply (simp only: c0 Let_def)
    using rd1 sc1 st1 by (simp add: relay_init_def)
  have c2: "compact N ?s2 = ?s2" using n by (intro compact_idle) simp
  have rd2: "net_read (N - ?k) [[LF]] = Some ([LF], [])" using n by simp
  have "store (?a @ NUL # ?r) ?k ([LF] @ [NUL]) = ?a @ [LF] @ NUL # drop (length [LF]) ?r"
    by (rule store_after [OF la])
  then have st2: "store (?a @ NUL # ?r) ?k [LF, NUL] = ?a @ [LF] @ NUL # drop 1 ?r"
    by simp
  have nf2: "strstr_crlf (readbuf ?s3) (mybuf ?s3) = None"
    by (simp add: strstr_crlf_def find_crlf_NUL)
  have sc2: "scan_lines N record_line ?k (int N - int ?k) (int (length [LF])) ?s3 acc =
      Inr (?s4, acc)"
    using scan_fragment [OF nf2, of N record_line ?k "int N - int ?k" "int (length [LF])" acc]
    by simp
  have step2: "relay_loop N record_line ?s2 acc [[LF]] = relay_loop N record_line ?s4 acc []"
  proof (rule relay_loop_step)
    show "1 < mylen ?s2" using n by simp
    show "net_read (nat (mylen ?s2)) [[LF]] = Some ([LF], [])" using n by simp
    show "scan_lines N record_line (mybuf ?s2) (mylen ?s2) (int (length [LF]))
            (?s2\<lparr>readbuf := store (readbuf ?s2) (mybuf ?s2) ([LF] @ [NUL])\<rparr>) acc = Inr (?s4, acc)"
      using sc2 st2 by simp
  qed
  have "relay_loop N record_line ?s4 acc [] = Inr (?s4, acc)"
    using n by (intro relay_loop_end) simp
  then show ?thesis unfolding step1 step2 by (simp add: dispatched_def)
qed

text \<open>
  Claim C2. A line split between its CR and its LF is not recognised: \<^verbatim>\<open>strstr\<close> searches
  from \<open>mybuf\<close>, where the second read begins, and the CR lies before it. In one read
  the line is dispatched once; split there, nothing is dispatched after both reads, and
  the line is later dispatched glued to the next one.
\<close>

theorem line_split_between_cr_and_lf_not_dispatched:
  "dispatched (relay_loop 512 record_line (relay_init 512 ex_buf0) []
       [''PING :x'' @ [CR, LF]]) = Inr [''PING :x'' @ [CR, LF]] \<and>
   dispatched (relay_loop 512 record_line (relay_init 512 ex_buf0) []
       [''PING :x'' @ [CR], [LF]]) = Inr [] \<and>
   dispatched (relay_loop 512 record_line (relay_init 512 ex_buf0) []
       [''PING :x'' @ [CR], [LF], ''PING :y'' @ [CR, LF]]) =
     Inr [''PING :x'' @ [CR, LF] @ ''PING :y'' @ [CR, LF]]"
  by code_simp

text \<open>Split anywhere else the line is put together again, as in the scenario of the
  specification; a fragment that follows complete lines is kept and completed.\<close>

lemma partial_message_example:
  "dispatched (relay_loop 512 record_line (relay_init 512 ex_buf0) []
       [''PRIVMSG #lobby :par'', ''tial message'' @ [CR, LF]]) =
     Inr [''PRIVMSG #lobby :partial message'' @ [CR, LF]]"
  by code_simp

lemma trailing_fragment_example:
  "dispatched (relay_loop 512 record_line (relay_init 512 ex_buf0) []
       [''PING :x'' @ [CR, LF] @ ''PING :y'' @ [CR, LF] @ ''PI'', ''NG :z'' @ [CR, LF]]) =
     Inr [''PING :x'' @ [CR], ''PING :y'' @ [CR], ''PING :z'' @ [CR, LF]]"
  by code_simp

lemma compact_oversized:
  assumes "mylen s \<le> 1" and "N \<le> length (cstr (readbuf s) (start s)) + 1"
  shows "compact N s =
     s\<lparr>readbuf := store (readbuf s) 0 (cstr (readbuf s) (start s) @ [NUL]),
       start := 0, mybuf := 0, mylen := int N,
       rlog := rlog s @ [(LOG_ERROR, ''Buffer truncation!'')]\<rparr>"
  using assms by (simp add: compact_def Let_def)

text \<open>The locals \<open>ex_full\<close> are those of a reader that has read 512 bytes without a line
  end into the empty array.\<close>

lemma ex_full_reached:
  "relay_loop 512 h (relay_init 512 ex_buf0) c (replicate 512 CHR ''a'' # input) =
   relay_loop 512 h ex_full c input"
proof (rule relay_loop_step)
  show "1 < mylen (relay_init 512 ex_buf0)" by (simp add: relay_init_def)
  show "net_read (nat (mylen (relay_init 512 ex_buf0))) (replicate 512 CHR ''a'' # input) =
          Some (replicate 512 CHR ''a'', input)"
    by (simp add: relay_init_def)
  have st: "store ex_buf0 0 (replicate 512 CHR ''a'' @ [NUL]) = replicate 512 CHR ''a'' @ [NUL]"
    by code_simp
  have nf: "find_crlf (replicate 512 CHR ''a'' @ [NUL]) = None"
    by code_simp
  have "scan_lines 512 h 0 512 512 (relay_init 512 ex_buf0\<lparr>readbuf := replicate 512 CHR ''a'' @ [NUL]\<rparr>) c
          = Inr (relay_init 512 ex_buf0\<lparr>readbuf := replicate 512 CHR ''a'' @ [NUL], mybuf := 0 + nat 512, mylen := 512 - 512\<rparr>, c)"
    by (rule scan_fragment) (simp add: strstr_crlf_def relay_init_def nf)
  then show "scan_lines 512 h (mybuf (relay_init 512 ex_buf0)) (mylen (relay_init 512 ex_buf0))
          (int (length (replicate 512 CHR ''a'')))
          (relay_init 512 ex_buf0\<lparr>readbuf := store (readbuf (relay_init 512 ex_buf0))
              (mybuf (relay_init 512 ex_buf0)) (replicate 512 CHR ''a'' @ [NUL])\<rparr>) c = Inr (ex_full, c)"
    using st by (simp add: relay_init_def ex_full_def)
qed

text \<open>
  Claim C5. When at most one byte of the array is free and the pending fragment alone
  fills it (moving it to the front leaves at most one byte), the reader logs
  "Buffer truncation!", resets \<open>start\<close> and \<open>mybuf\<close> to the beginning of the array and
  \<open>mylen\<close> to its full capacity, and goes on: the next read, if the network has data,
  stores at offset 0 and its lines are scanned as usual; nothing ends the loop but the
  end of the input.
\<close>

theorem oversized_line_resets_and_continues:
  assumes "2 \<le> N" and "mylen s \<le> 1" and "N \<le> length (cstr (readbuf s) (start s)) + 1"
  shows "start (compact N s) = 0 \<and> mybuf (compact N s) = 0 \<and> mylen (compact N s) = int N \<and>
     rlog (compact N s) = rlog s @ [(LOG_ERROR, ''Buffer truncation!'')] \<and>
     relay_loop N h s c input =
       (case net_read N input of
          None \<Rightarrow> Inr (compact N s, c)
        | Some (bytes, rest) \<Rightarrow>
            (case scan_lines N h 0 (int N) (int (length bytes))
                    ((compact N s)\<lparr>readbuf := store (readbuf (compact N s)) 0 (bytes @ [NUL])\<rparr>) c of
               Inl f \<Rightarrow> Inl f
             | Inr (s2, c') \<Rightarrow> relay_loop N h s2 c' rest))"
proof -
  have c: "compact N s =
     s\<lparr>readbuf := store (readbuf s) 0 (cstr (readbuf s) (start s) @ [NUL]),
       start := 0, mybuf := 0, mylen := int N,
       rlog := rlog s @ [(LOG_ERROR, ''Buffer truncation!'')]\<rparr>"
    by (rule compact_oversized [OF assms(2,3)])
  have f: "start (compact N s) = 0" "mybuf (compact N s) = 0" "mylen (compact N s) = int N"
    "rlog (compact N s) = rlog s @ [(LOG_ERROR, ''Buffer truncation!'')]"
    by (simp_all add: c)
  have "relay_loop N h s c input =
       (case net_read (nat (mylen (compact N s))) input of
          None \<Rightarrow> Inr (compact N s, c)
        | Some (bytes, rest) \<Rightarrow>
            (case scan_lines N h (mybuf (compact N s)) (mylen (compact N s)) (int (length bytes))
                    ((compact N s)\<lparr>readbuf :=
                       store (readbuf (compact N s)) (mybuf (compact N s)) (bytes @ [NUL])\<rparr>) c of
               Inl f \<Rightarrow> Inl f
             | Inr (s2, c') \<Rightarrow> relay_loop N h s2 c' rest))"
    by (subst relay_loop.simps) (simp add: Let_def)
  then have "relay_loop N h s c input =
       (case net_read (nat (int N)) input of
          None \<Rightarrow> Inr (compact N s, c)
        | Some (bytes, rest) \<Rightarrow>
            (case scan_lines N h 0 (int N) (int (length bytes))
                    ((compact N s)\<lparr>readbuf := store (readbuf (compact N s)) 0 (bytes @ [NUL])\<rparr>) c of
               Inl f \<Rightarrow> Inl f
             | Inr (s2, c') \<Rightarrow> relay_loop N h s2 c' rest))"
    unfolding f(2,3) .
  then show ?thesis using f by simp
qed

theorem oversized_line_resets_and_continues_witness:
  "(2::nat) \<le> 512 \<and> mylen ex_full \<le> 1 \<and>
   512 \<le> length (cstr (readbuf ex_full) (start ex_full)) + 1 \<and>
   (start (compact 512 ex_full) = 0 \<and> mybuf (compact 512 ex_full) = 0 \<and>
    mylen (compact 512 ex_full) = int 512 \<and>
    rlog (compact 512 ex_full) = rlog ex_full @ [(LOG_ERROR, ''Buffer truncation!'')] \<and>
    relay_loop 512 record_line ex_full [] [''PING :x'' @ [CR, LF]] =
       (case net_read 512 [''PING :x'' @ [CR, LF]] of
          None \<Rightarrow> Inr (compact 512 ex_full, [])
        | Some (bytes, rest) \<Rightarrow>
            (case scan_lines 512 record_line 0 (int 512) (int (length bytes))
                    ((compact 512 ex_full)\<lparr>readbuf :=
                        store (readbuf (compact 512 ex_full)) 0 (bytes @ [NUL])\<rparr>) [] of
               Inl f \<Rightarrow> Inl f
             | Inr (s2, c') \<Rightarrow> relay_loop 512 record_line s2 c' rest)))"
proof -
  have h1: "(2::nat) \<le> 512" by simp
  have h2: "mylen ex_full \<le> 1" by (simp add: ex_full_def)
  have h3: "512 \<le> length (cstr (readbuf ex_full) (start ex_full)) + 1" by code_simp
  show ?thesis
    by (rule conjI [OF h1 conjI [OF h2 conjI [OF h3
          oversized_line_resets_and_continues [OF h1 h2 h3]]]])
qed

text \<open>From the start: 512 bytes without a line end, then a line. The line is dispatched,
  the 512 bytes are not, and the truncation is in the log.\<close>

lemma oversized_then_line_example:
  "(case relay_loop 512 record_line (relay_init 512 ex_buf0) []
           [replicate 512 CHR ''a'', ''PING :x'' @ [CR, LF]] of
      Inl f \<Rightarrow> None
    | Inr (s, acc) \<Rightarrow> Some (acc, rlog s)) =
   Some ([''PING :x'' @ [CR, LF]], [(LOG_ERROR, ''Buffer truncation!'')])"
  by code_simp

subsection \<open>Properties of the registry\<close>

text \<open>No step clears the flag, and none puts a client on the list once it is empty.\<close>

lemma load_config_not_unloading:
  "load_config le cfg registry_init = Inr (r, lg, res) \<Longrightarrow> \<not> unloading r"
  by (auto simp: load_config_def registry_init_def split: option.splits prod.splits if_splits)

lemma start_clients_keeps:
  "start_clients con thr r = Inr (r', lg, res) \<Longrightarrow>
   unloading r' = unloading r \<and> (clients r = [] \<longrightarrow> clients r' = [])"
  by (auto simp: start_clients_def split: prod.splits if_splits)

lemma join_client_keeps:
  "join_client addr pipe_ok r nd nm = Inr (r', p, lg) \<Longrightarrow>
   unloading r' = unloading r \<and> (clients r = [] \<longrightarrow> clients r' = [])"
  by (auto simp: join_client_def split: option.splits if_splits)

lemma on_client_keeps:
  "on_client f ca r = Inr (r', lg) \<Longrightarrow>
   unloading r' = unloading r \<and> (clients r = [] \<longrightarrow> clients r' = [])"
  by (auto simp: on_client_def split: option.splits sum.splits)

lemma leave_client_keeps:
  "leave_client r ca pa = Inr (r', lg) \<Longrightarrow>
   unloading r' = unloading r \<and> (clients r = [] \<longrightarrow> clients r' = [])"
  by (auto simp: leave_client_def split: option.splits if_splits)

text \<open>Once the flag is set the list of clients is empty.\<close>

lemma unloading_no_clients: "reachable r \<Longrightarrow> unloading r \<Longrightarrow> clients r = []"
proof (induction rule: reachable.induct)
  case init
  then show ?case by (simp add: registry_init_def)
next
  case (load le cfg r lg res)
  then show ?case using load_config_not_unloading by blast
next
  case (start r con thr r' lg res)
  then show ?case using start_clients_keeps by blast
next
  case (join r addr pipe_ok nd nm r' p lg)
  then show ?case using join_client_keeps by blast
next
  case (chan r a ch)
  then show ?case by (simp add: set_channel_def)
next
  case (send r e sender ch t ca r' lg)
  then show ?case using on_client_keeps by blast
next
  case (dispatch r e m ca r' lg)
  then show ?case using on_client_keeps by blast
next
  case (leave r ca pa r' lg)
  then show ?case using leave_client_keeps by blast
next
  case (unload r r')
  then show ?case by (auto simp: unload_module_def split: if_splits)
qed

text \<open>
  What a join and a leave do in a state with the flag set. \<^verbatim>\<open>join_client\<close> does not read
  the flag: it finds no client because the list is empty, creates no participant, and
  returns \<^verbatim>\<open>NULL\<close> with the lock of the list held. \<^verbatim>\<open>leave_client\<close> reads the flag once it
  has the lock: it frees the participant and touches no list. Either waits for ever when
  an earlier call has kept the lock.
\<close>

lemma unloading_join_and_leave:
  assumes "reachable r" and "unloading r"
  shows "join_client addr pipe_ok r nd nm =
           (if clients_locked r then Inl Blocked
            else Inr (r\<lparr>clients_locked := True\<rparr>, None,
                      [(LOG_ERROR, ''IRC client '' @ nm @ '' does not exist'')]))"
    and "leave_client r ca pa =
           (if clients_locked r then Inl Blocked else Inr (r\<lparr>freed := pa # freed r\<rparr>, []))"
  using unloading_no_clients [OF assms] assms(2)
  by (simp_all add: join_client_def leave_client_def)

text \<open>The sample states follow one another: load, start, join, channel, unload.\<close>

lemma ex_steps:
  "load_config ex_le (Some (ex_cfg [ex_section ''net1'' ''irc.a.org''])) registry_init =
     Inr (ex_loaded, [], 0)"
  "start_clients (\<lambda>a. Connected) (\<lambda>a. ThreadCreated) ex_loaded =
     Inr (ex_started, [(LOG_VERBOSE, ''Started IRC clients'')], 0)"
  "join_client (Some 1) True ex_started (node participant_A) ''NET1'' = Inr (ex_joined, Some 1, [])"
  "set_channel 1 ''#lobby'' ex_joined = ex_chatting"
  "unload_module ex_chatting = Inr ex_unloaded"
  by code_simp+

lemma reachable_ex_chatting: "reachable ex_chatting"
proof -
  have 1: "reachable ex_loaded" by (rule reachable.load [OF ex_steps(1)])
  have 2: "reachable ex_started" by (rule reachable.start [OF 1 ex_steps(2)])
  have 3: "reachable ex_joined" by (rule reachable.join [OF 2 ex_steps(3)])
  have "reachable (set_channel 1 ''#lobby'' ex_joined)" by (rule reachable.chan [OF 3])
  then show ?thesis unfolding ex_steps(4) .
qed

lemma reachable_ex_unloaded: "reachable ex_unloaded"
  by (rule reachable.unload [OF reachable_ex_chatting ex_steps(5)])

text \<open>
  Claim C4. Once the flag \<^verbatim>\<open>unloading\<close> is set a join creates no participant, and a leave
  is meant to free the participant and do nothing else. The module is unloaded while
  participant 1 is attached to \<^verbatim>\<open>net1\<close>. A join for \<^verbatim>\<open>net1\<close> by another node is then
  refused: it finds no client, logs an error and returns \<^verbatim>\<open>NULL\<close>, but this path has no
  \<^verbatim>\<open>RWLIST_UNLOCK\<close>, so the lock of the list stays held. The leave of participant 1 that
  follows waits for that lock for ever: the participant is never freed.
\<close>

theorem leave_blocks_after_refused_join:
  "unload_module ex_chatting = Inr ex_unloaded \<and>
   join_client (Some 2) True ex_unloaded (node participant_B) ''net1'' =
     Inr (ex_unloaded\<lparr>clients_locked := True\<rparr>, None,
          [(LOG_ERROR, ''IRC client net1 does not exist'')]) \<and>
   leave_client (ex_unloaded\<lparr>clients_locked := True\<rparr>) 100 1 = Inl Blocked"
  by code_simp

text \<open>The state in which the leave waits is a state of the module.\<close>

lemma reachable_lock_held: "reachable (ex_unloaded\<lparr>clients_locked := True\<rparr>)"
proof -
  have j: "join_client (Some 2) True ex_unloaded (node participant_B) ''net1'' =
     Inr (ex_unloaded\<lparr>clients_locked := True\<rparr>, None,
          [(LOG_ERROR, ''IRC client net1 does not exist'')])"
    by code_simp
  show ?thesis by (rule reachable.join [OF reachable_ex_unloaded j])
qed

text \<open>
  Without the refused join the same leave frees the participant and touches no list;
  before the unload it takes the participant off its client's list.
\<close>

lemma leave_examples:
  "leave_client ex_unloaded 100 1 = Inr (ex_unloaded\<lparr>freed := [1]\<rparr>, [])"
  "leave_client ex_chatting 100 1 = Inr (ex_started\<lparr>freed := [1]\<rparr>, [])"
  by code_simp+

text \<open>The two other failure paths of \<^verbatim>\<open>join_client\<close> release the lock.\<close>

lemma join_failures_release_lock:
  "join_client None True ex_started (node participant_A) ''net1'' =
     Inr (ex_started, None, [(LOG_ERROR, ''calloc failure'')])"
  "join_client (Some 1) False ex_started (node participant_A) ''net1'' =
     Inr (ex_started\<lparr>freed := [1]\<rparr>, None, [(LOG_ERROR, ''Failed to create pipe'')])"
  by code_simp+

text \<open>
  A join for a name that no section has keeps the lock in the same way before any
  unload; the unload itself then waits.
\<close>

lemma unload_blocks_after_refused_join:
  "join_client (Some 2) True ex_chatting (node participant_B) ''net2'' =
     Inr (ex_chatting\<lparr>clients_locked := True\<rparr>, None,
          [(LOG_ERROR, ''IRC client net2 does not exist'')])"
  "unload_module (ex_chatting\<lparr>clients_locked := True\<rparr>) = Inl Blocked"
  by code_simp+

text \<open>
  Claim C7. \<^verbatim>\<open>load_config\<close> appends one client for every section other than
  \<^verbatim>\<open>general\<close> and compares no names: two sections named \<^verbatim>\<open>net1\<close> leave two clients
  named \<^verbatim>\<open>net1\<close> in the registry, and nothing is logged.
\<close>

theorem duplicate_sections_give_two_clients:
  "(case load_config ex_le
           (Some (ex_cfg [ex_section ''general'' ''-'', ex_section ''net1'' ''irc.a.org'',
                          ex_section ''net1'' ''irc.b.org''])) registry_init of
      Inl f \<Rightarrow> None
    | Inr (r, lg, res) \<Rightarrow>
        Some (map c_name (clients r), map (\<lambda>c. ic_hostname (irc c)) (clients r), lg, res))
   = Some ([''net1'', ''net1''], [Some ''irc.a.org'', Some ''irc.b.org''], [], 0)"
  by code_simp

text \<open>In general the names of the clients are the names of the sections, repetitions
  included, when every allocation succeeds.\<close>

lemma walk_sections_names:
  "\<forall>i. calloc_client le i \<noteq> None \<and> irc_client_new_ok le i \<Longrightarrow>
   map c_name (fst (walk_sections le cfg i lf secs)) =
     filter (\<lambda>n. n \<noteq> ''general'') (map sect_name secs)"
proof (induction secs arbitrary: i lf)
  case Nil
  then show ?case by simp
next
  case (Cons sec secs)
  obtain a where a: "calloc_client le i = Some a" using Cons.prems by auto
  have ok: "irc_client_new_ok le i" using Cons.prems by simp
  have ih: "\<And>lf'. map c_name (fst (walk_sections le cfg (Suc i) lf' secs)) =
     filter (\<lambda>n. n \<noteq> ''general'') (map sect_name secs)"
    by (rule Cons.IH [OF Cons.prems])
  show ?case using a ok ih
    by (simp add: new_client_def Let_def case_prod_beta)
qed

text \<open>
  A section without the key \<^verbatim>\<open>logfile\<close> gets the value the section before it left in the
  local variable: here \<^verbatim>\<open>net1\<close> sets it and \<^verbatim>\<open>net2\<close> has no such key.
\<close>

lemma logfile_kept_from_previous_section:
  "map c_log (fst (walk_sections ex_le
      ((ex_cfg []) \<lparr>val_true := (\<lambda>nm key. if nm = ''net1'' \<and> key = ''logfile'' then Some True
                                            else None)\<rparr>)
      0 False [ex_section ''net1'' ''irc.a.org'', ex_section ''net2'' ''irc.b.org''])) =
   [True, True]"
  by code_simp

text \<open>
  A client that connects and logs in but is found disconnected is reported twice and
  taken off the list; a thread that cannot be created ends \<^verbatim>\<open>start_clients\<close> with the
  lock held.
\<close>

lemma start_clients_examples:
  "start_clients (\<lambda>a. DisconnectedEarly) (\<lambda>a. ThreadCreated) ex_loaded =
     Inr (registry_init,
          [(LOG_ERROR, ''Attempted to start client net1, but disconnected prematurely?''),
           (LOG_ERROR, ''Failed to start IRC client net1'')], 0)"
  "start_clients (\<lambda>a. Connected) (\<lambda>a. ThreadAllocFailed) ex_loaded =
     Inr (ex_loaded\<lparr>clients_locked := True\<rparr>, [], - 1)"
  by code_simp+

subsection \<open>Properties of the thread join\<close>









text \<open>A thread that is not on the list is refused whatever the time and the list.\<close>

lemma unregistered_thread_refused:
  "find (\<lambda>y. t_id y = thread) ths = None \<Longrightarrow>
   bbs_pthread_join je ths thread =
     Some \<lparr>jr_ret = - 1, jr_threads = ths,
           jr_log = [(clock je, (LOG_ERROR, ''Thread not registered''))],
           jr_clock = clock je, jr_calls = 0\<rparr>"
  by (simp add: bbs_pthread_join_def)

text \<open>
  The source sets \<^verbatim>\<open>ts\<close> to 30 milliseconds and passes it as the deadline, which the
  library reads as a time since the Epoch. So a first attempt made later than 30
  milliseconds after the Epoch returns at once: it times out exactly when the thread has
  not terminated yet, however soon it will.
\<close>

lemma first_attempt_does_not_wait:
  assumes "join_errno je = 0" and "exits_at je = Some T" and "ts \<le> clock je"
  shows "pthread_timedjoin_np je (clock je) ts =
           (if clock je < T then (ETIMEDOUT, clock je) else (0, clock je))"
  using assms by (simp add: pthread_timedjoin_np_def)

text \<open>A thread that never terminates keeps the joiner for ever: the call does not return.\<close>

lemma timedjoin_loop_Some:
  "timedjoin_loop je t n = Some r \<Longrightarrow> \<exists>t'. fst (pthread_timedjoin_np je t' ts) \<noteq> ETIMEDOUT"
  by (rule timedjoin_loop.raw_induct
        [where P = "\<lambda>je t n r. \<exists>t'. fst (pthread_timedjoin_np je t' ts) \<noteq> ETIMEDOUT"])
     (auto split: if_splits)

lemma timedjoin_loop_never_returns:
  assumes "exits_at je = None" and "join_errno je = 0"
  shows "timedjoin_loop je t n = None"
proof (cases "timedjoin_loop je t n")
  case None
  then show ?thesis .
next
  case (Some r)
  then show ?thesis using timedjoin_loop_Some [OF Some] assms
    by (simp add: pthread_timedjoin_np_def)
qed

lemma join_never_returns:
  assumes "find (\<lambda>y. t_id y = thread) ths = Some x" and "\<not> t_detached x"
    and "t_lwp x \<noteq> 0" and "exits_at je = None" and "join_errno je = 0"
  shows "bbs_pthread_join je ths thread = None"
  using assms timedjoin_loop_never_returns [OF assms(4,5)]
  by (simp add: bbs_pthread_join_def pthread_timedjoin_np_def pthread_join_def Let_def)

end
